theory Spec2Isabelle
  imports Complex_Main "HOL-Library.Monad_Syntax"
begin

section \<open>Conventions of the embedding\<close>

text \<open>
  The detectors of \<^verbatim>\<open>src/utils\<close> are classes with private mutable fields. Each class
  becomes a record of its fields and each method a function that takes the record and
  returns the result together with the updated record.

  \<^item> Landmark coordinates, the geometry computed from them, time stamps, and the
    thresholds that are only compared with such quantities (the EAR thresholds, the hold
    time) are modelled as \<^typ>\<open>real\<close>: the idealised semantics of the arithmetic.
    The counters of the blink detector, the fatigue detector and the store are
    \<^typ>\<open>int\<close>.
  \<^item> The smoothing state of the head tracker and the counters, thresholds and scores of
    the sleep detector are JavaScript numbers with their special values (type
    \<open>number\<close> below): this is where a setter can store NaN or a division can have a
    zero divisor. The sleep score is rounded to an integer by \<^verbatim>\<open>Math.round\<close>, so its
    arithmetic is the correctly rounded binary64 arithmetic (\<open>js_add\<close>, \<open>js_mul\<close>,
    \<open>js_div\<close>). The smoothing of the head tracker uses the same operations before
    rounding (\<open>exact_add\<close>, \<open>exact_mul\<close>), like the rest of the geometry.
  \<^item> \<^verbatim>\<open>Date.now()\<close> is an explicit argument \<open>now\<close>.
  \<^item> \<^verbatim>\<open>landmarks[i]\<close> beyond the end of the array is \<^verbatim>\<open>undefined\<close>, and reading
    a coordinate of \<^verbatim>\<open>undefined\<close> throws a TypeError. Every method below
    dereferences each landmark it reads before it returns, so a method that reads past
    the end throws: it returns \<^term>\<open>None\<close>, and a normal return is \<^term>\<open>Some\<close>.
  \<^item> Record fields carry a prefix naming their class, since several classes use the
    same field names.
\<close>

section \<open>JavaScript numbers\<close>

text \<open>
  A JavaScript number is an IEEE 754 binary64 value: a finite value, one of the two
  zeros, one of the two infinities, or NaN. \<open>Num 0\<close> is the positive zero and
  \<open>NegZero\<close> the negative one.
\<close>

datatype number = Num real | NegZero | PosInf | NegInf | NaN

definition pow2 :: "int \<Rightarrow> real" where
  "pow2 e = (if 0 \<le> e then 2 ^ nat e else 1 / 2 ^ nat (- e))"

text \<open>
  The exponent of a magnitude \<open>v\<close>, searched upwards from \<open>e\<close>: the largest exponent
  up to 1024 whose power of two does not exceed \<open>v\<close>. Started at \<open>-1022\<close> it is
  \<open>-1022\<close> for every subnormal magnitude.
\<close>

function binade_from :: "real \<Rightarrow> int \<Rightarrow> int" where
  "binade_from v e = (if e < 1024 \<and> pow2 (e + 1) \<le> v then binade_from v (e + 1) else e)"
  by pat_completeness auto
termination
  by (relation "measure (\<lambda>(v, e). nat (1024 - e))") auto

definition round_half_even :: "real \<Rightarrow> int" where
  "round_half_even q =
     (let n = \<lfloor>q\<rfloor>; d = q - of_int n
      in if d < 1 / 2 then n else if 1 / 2 < d then n + 1 else if even n then n else n + 1)"

text \<open>
  Rounding a real to the nearest binary64 value, a tie going to the even significand:
  the value is rounded to a multiple of the unit in the last place of its binade (53
  significant bits, or \<^verbatim>\<open>2^-1074\<close> for subnormals); a result of magnitude
  \<^verbatim>\<open>2^1024\<close> overflows to an infinity and a non-zero value that rounds to zero keeps its sign.
\<close>

definition fl :: "real \<Rightarrow> number" where
  "fl v =
     (let u = pow2 (binade_from \<bar>v\<bar> (- 1022) - 52);
          r = of_int (round_half_even (v / u)) * u
      in if pow2 1024 \<le> \<bar>r\<bar> then (if 0 < v then PosInf else NegInf)
         else if r = 0 then (if v < 0 then NegZero else Num 0)
         else Num r)"

definition negative :: "number \<Rightarrow> bool" where
  "negative a = (case a of Num r \<Rightarrow> r < 0 | NegZero \<Rightarrow> True | NegInf \<Rightarrow> True | _ \<Rightarrow> False)"

definition value_of :: "number \<Rightarrow> real" where
  "value_of a = (case a of Num r \<Rightarrow> r | _ \<Rightarrow> 0)"

definition is_zero :: "number \<Rightarrow> bool" where
  "is_zero a = (a = Num 0 \<or> a = NegZero)"

definition is_inf :: "number \<Rightarrow> bool" where
  "is_inf a = (a = PosInf \<or> a = NegInf)"

definition signed_zero :: "bool \<Rightarrow> number" where
  "signed_zero s = (if s then NegZero else Num 0)"

definition signed_inf :: "bool \<Rightarrow> number" where
  "signed_inf s = (if s then NegInf else PosInf)"

text \<open>
  The four operations before rounding: the IEEE rules for NaN, the infinities and the
  signed zeros, and the exact result on finite operands.
\<close>

definition exact_mul :: "number \<Rightarrow> number \<Rightarrow> number" where
  "exact_mul a b =
     (if a = NaN \<or> b = NaN then NaN
      else if (is_inf a \<and> is_zero b) \<or> (is_zero a \<and> is_inf b) then NaN
      else if is_inf a \<or> is_inf b then signed_inf (negative a \<noteq> negative b)
      else if is_zero a \<or> is_zero b then signed_zero (negative a \<noteq> negative b)
      else Num (value_of a * value_of b))"

definition exact_div :: "number \<Rightarrow> number \<Rightarrow> number" where
  "exact_div a b =
     (if a = NaN \<or> b = NaN then NaN
      else if (is_inf a \<and> is_inf b) \<or> (is_zero a \<and> is_zero b) then NaN
      else if is_inf a \<or> is_zero b then signed_inf (negative a \<noteq> negative b)
      else if is_inf b \<or> is_zero a then signed_zero (negative a \<noteq> negative b)
      else Num (value_of a / value_of b))"

definition exact_add :: "number \<Rightarrow> number \<Rightarrow> number" where
  "exact_add a b =
     (if a = NaN \<or> b = NaN then NaN
      else if is_inf a then (if is_inf b \<and> a \<noteq> b then NaN else a)
      else if is_inf b then b
      else if a = NegZero \<and> b = NegZero then NegZero
      else Num (value_of a + value_of b))"

definition negate :: "number \<Rightarrow> number" where
  "negate a = (case a of Num r \<Rightarrow> (if r = 0 then NegZero else Num (- r))
               | NegZero \<Rightarrow> Num 0 | PosInf \<Rightarrow> NegInf | NegInf \<Rightarrow> PosInf | NaN \<Rightarrow> NaN)"

definition exact_sub :: "number \<Rightarrow> number \<Rightarrow> number" where
  "exact_sub a b = exact_add a (negate b)"

text \<open>The operations of the language: the exact result, rounded.\<close>

definition to_double :: "number \<Rightarrow> number" where
  "to_double a = (case a of Num r \<Rightarrow> fl r | _ \<Rightarrow> a)"

definition js_add :: "number \<Rightarrow> number \<Rightarrow> number" where
  "js_add a b = to_double (exact_add a b)"

definition js_sub :: "number \<Rightarrow> number \<Rightarrow> number" where
  "js_sub a b = to_double (exact_sub a b)"

definition js_mul :: "number \<Rightarrow> number \<Rightarrow> number" where
  "js_mul a b = to_double (exact_mul a b)"

definition js_div :: "number \<Rightarrow> number \<Rightarrow> number" where
  "js_div a b = to_double (exact_div a b)"

text \<open>Comparisons: false when either side is NaN; the two zeros are equal.\<close>

definition rank :: "number \<Rightarrow> int" where
  "rank a = (case a of PosInf \<Rightarrow> 1 | NegInf \<Rightarrow> - 1 | _ \<Rightarrow> 0)"

definition js_lt :: "number \<Rightarrow> number \<Rightarrow> bool" where
  "js_lt a b = (a \<noteq> NaN \<and> b \<noteq> NaN \<and>
                (rank a < rank b \<or> (rank a = rank b \<and> value_of a < value_of b)))"

definition js_le :: "number \<Rightarrow> number \<Rightarrow> bool" where
  "js_le a b = (a \<noteq> NaN \<and> b \<noteq> NaN \<and>
                (rank a < rank b \<or> (rank a = rank b \<and> value_of a \<le> value_of b)))"

definition js_gt :: "number \<Rightarrow> number \<Rightarrow> bool" where
  "js_gt a b = js_lt b a"

definition js_ge :: "number \<Rightarrow> number \<Rightarrow> bool" where
  "js_ge a b = js_le b a"

text \<open>
  \<^verbatim>\<open>Math.min\<close> and \<^verbatim>\<open>Math.max\<close>: NaN when either argument is NaN; the negative
  zero is the smaller zero.
\<close>

definition Math_min :: "number \<Rightarrow> number \<Rightarrow> number" where
  "Math_min a b =
     (if a = NaN \<or> b = NaN then NaN
      else if js_lt a b then a else if js_lt b a then b
      else if a = NegZero then a else b)"

definition Math_max :: "number \<Rightarrow> number \<Rightarrow> number" where
  "Math_max a b =
     (if a = NaN \<or> b = NaN then NaN
      else if js_lt a b then b else if js_lt b a then a
      else if a = NegZero then b else a)"

text \<open>
  \<^verbatim>\<open>Math.round\<close>: the nearest integer, a tie going up; NaN, the infinities and the
  zeros are returned as they are, and a value in \<open>[-0.5, 0)\<close> gives the negative zero.
\<close>

definition Math_round :: "number \<Rightarrow> number" where
  "Math_round a =
     (case a of
        Num r \<Rightarrow> (if r < 0 \<and> - (1 / 2) \<le> r then NegZero else Num (of_int \<lfloor>r + 1 / 2\<rfloor>))
      | _ \<Rightarrow> a)"

section \<open>Landmarks and the eye aspect ratio (blinkDetection)\<close>

record Landmark =
  lm_x :: real
  lm_y :: real
  lm_z :: real

text \<open>\<^verbatim>\<open>landmarks[i]\<close>: the element, or \<^verbatim>\<open>undefined\<close> (here \<^term>\<open>None\<close>).\<close>

definition at_index :: "'a list \<Rightarrow> nat \<Rightarrow> 'a option" where
  "at_index xs i = (if i < length xs then Some (xs ! i) else None)"

record eye_points =
  p1 :: nat
  p2 :: nat
  p3 :: nat
  p4 :: nat
  p5 :: nat
  p6 :: nat

definition LEFT_EYE_EAR_POINTS :: eye_points where
  "LEFT_EYE_EAR_POINTS = \<lparr>p1 = 33, p2 = 160, p3 = 158, p4 = 133, p5 = 153, p6 = 144\<rparr>"

definition RIGHT_EYE_EAR_POINTS :: eye_points where
  "RIGHT_EYE_EAR_POINTS = \<lparr>p1 = 362, p2 = 385, p3 = 387, p4 = 263, p5 = 373, p6 = 380\<rparr>"

definition euclideanDistance :: "Landmark \<Rightarrow> Landmark \<Rightarrow> real" where
  "euclideanDistance a b = sqrt ((lm_x a - lm_x b)\<^sup>2 + (lm_y a - lm_y b)\<^sup>2)"

definition calculateEAR :: "Landmark list \<Rightarrow> eye_points \<Rightarrow> real option" where
  "calculateEAR landmarks eyePoints = do {
     q1 \<leftarrow> at_index landmarks (p1 eyePoints);
     q2 \<leftarrow> at_index landmarks (p2 eyePoints);
     q3 \<leftarrow> at_index landmarks (p3 eyePoints);
     q4 \<leftarrow> at_index landmarks (p4 eyePoints);
     q5 \<leftarrow> at_index landmarks (p5 eyePoints);
     q6 \<leftarrow> at_index landmarks (p6 eyePoints);
     let vertical1 = euclideanDistance q2 q6;
     let vertical2 = euclideanDistance q3 q5;
     let horizontal = euclideanDistance q1 q4;
     if horizontal = 0 then Some 0
     else Some ((vertical1 + vertical2) / (2.0 * horizontal))
   }"

record EyeAspectRatio =
  ear_left :: real
  ear_right :: real
  ear_avg :: real

definition getEyeAspectRatio :: "Landmark list \<Rightarrow> EyeAspectRatio option" where
  "getEyeAspectRatio landmarks = do {
     left \<leftarrow> calculateEAR landmarks LEFT_EYE_EAR_POINTS;
     right \<leftarrow> calculateEAR landmarks RIGHT_EYE_EAR_POINTS;
     Some \<lparr>ear_left = left, ear_right = right, ear_avg = (left + right) / 2\<rparr>
   }"

definition areEyesClosed :: "Landmark list \<Rightarrow> real \<Rightarrow> bool option" where
  "areEyesClosed landmarks threshold = do {
     leftEAR \<leftarrow> calculateEAR landmarks LEFT_EYE_EAR_POINTS;
     rightEAR \<leftarrow> calculateEAR landmarks RIGHT_EYE_EAR_POINTS;
     let avgEAR = (leftEAR + rightEAR) / 2;
     Some (avgEAR < threshold)
   }"

section \<open>BlinkDetector\<close>

record BlinkDetector =
  bd_EAR_THRESHOLD :: real
  bd_frameCounter :: int
  bd_blinkCount :: int

text \<open>\<^verbatim>\<open>CONSEC_FRAMES\<close> is a readonly field that no method writes.\<close>

definition CONSEC_FRAMES :: int where
  "CONSEC_FRAMES = 2"

definition new_BlinkDetector :: BlinkDetector where
  "new_BlinkDetector = \<lparr>bd_EAR_THRESHOLD = 0.21, bd_frameCounter = 0, bd_blinkCount = 0\<rparr>"

record BlinkDetectionResult =
  bdr_isBlinking :: bool
  bdr_leftEAR :: real
  bdr_rightEAR :: real
  bdr_avgEAR :: real

definition BlinkDetector_detect ::
  "BlinkDetector \<Rightarrow> Landmark list \<Rightarrow> (BlinkDetectionResult \<times> BlinkDetector) option" where
  "BlinkDetector_detect this landmarks = do {
     leftEAR \<leftarrow> calculateEAR landmarks LEFT_EYE_EAR_POINTS;
     rightEAR \<leftarrow> calculateEAR landmarks RIGHT_EYE_EAR_POINTS;
     let avgEAR = (leftEAR + rightEAR) / 2;
     let isBlinking = avgEAR < bd_EAR_THRESHOLD this;
     let this' =
       (if isBlinking then this\<lparr>bd_frameCounter := bd_frameCounter this + 1\<rparr>
        else (if bd_frameCounter this \<ge> CONSEC_FRAMES
              then this\<lparr>bd_blinkCount := bd_blinkCount this + 1\<rparr>
              else this)\<lparr>bd_frameCounter := 0\<rparr>);
     Some (\<lparr>bdr_isBlinking = isBlinking, bdr_leftEAR = leftEAR,
            bdr_rightEAR = rightEAR, bdr_avgEAR = avgEAR\<rparr>, this')
   }"

definition getBlinkCount :: "BlinkDetector \<Rightarrow> int" where
  "getBlinkCount this = bd_blinkCount this"

definition resetBlinkCount :: "BlinkDetector \<Rightarrow> BlinkDetector" where
  "resetBlinkCount this = this\<lparr>bd_blinkCount := 0\<rparr>"

definition BlinkDetector_setThreshold :: "BlinkDetector \<Rightarrow> real \<Rightarrow> BlinkDetector" where
  "BlinkDetector_setThreshold this threshold = this\<lparr>bd_EAR_THRESHOLD := threshold\<rparr>"

text \<open>Feeding a sequence of frames to one detector, in order.\<close>

fun BlinkDetector_feed :: "BlinkDetector \<Rightarrow> Landmark list list \<Rightarrow> BlinkDetector option" where
  "BlinkDetector_feed this [] = Some this"
| "BlinkDetector_feed this (f # fs) =
     (case BlinkDetector_detect this f of
        None \<Rightarrow> None
      | Some (r, this') \<Rightarrow> BlinkDetector_feed this' fs)"

text \<open>
  A face fixture of 468 landmarks, all at the origin except the two eyes: both eye
  corners are one unit apart and both lids are \<open>e\<close> apart, so each eye has the aspect
  ratio \<open>e\<close>.
\<close>

definition origin :: Landmark where
  "origin = \<lparr>lm_x = 0, lm_y = 0, lm_z = 0\<rparr>"

definition eye_frame :: "real \<Rightarrow> Landmark list" where
  "eye_frame e = (replicate 468 origin)
     [133 := \<lparr>lm_x = 1, lm_y = 0, lm_z = 0\<rparr>,
      160 := \<lparr>lm_x = 0, lm_y = e, lm_z = 0\<rparr>,
      158 := \<lparr>lm_x = 0, lm_y = e, lm_z = 0\<rparr>,
      263 := \<lparr>lm_x = 1, lm_y = 0, lm_z = 0\<rparr>,
      385 := \<lparr>lm_x = 0, lm_y = e, lm_z = 0\<rparr>,
      387 := \<lparr>lm_x = 0, lm_y = e, lm_z = 0\<rparr>]"

text \<open>The same landmarks with every coordinate multiplied by \<open>k\<close>.\<close>

definition scale_landmarks :: "real \<Rightarrow> Landmark list \<Rightarrow> Landmark list" where
  "scale_landmarks k landmarks =
     map (\<lambda>p. \<lparr>lm_x = k * lm_x p, lm_y = k * lm_y p, lm_z = k * lm_z p\<rparr>) landmarks"

section \<open>HeadTracker (headTracking)\<close>

definition HT_NOSE_TIP :: nat where "HT_NOSE_TIP = 4"
definition FOREHEAD_CENTER :: nat where "FOREHEAD_CENTER = 10"
definition CHIN :: nat where "CHIN = 152"
definition LEFT_EYE_OUTER :: nat where "LEFT_EYE_OUTER = 33"
definition RIGHT_EYE_OUTER :: nat where "RIGHT_EYE_OUTER = 263"

record HeadPosition =
  hp_x :: number
  hp_y :: number
  hp_tilt :: real
  hp_yaw :: real
  hp_pitch :: real

record CalibrationData =
  cal_centerX :: real
  cal_centerY :: real
  cal_rangeX :: real
  cal_rangeY :: real
  cal_isCalibrated :: bool

record HeadTracker =
  ht_calibration :: CalibrationData
  ht_smoothedX :: number
  ht_smoothedY :: number
  ht_smoothingFactor :: number

definition new_HeadTracker :: HeadTracker where
  "new_HeadTracker =
     \<lparr>ht_calibration = \<lparr>cal_centerX = 0.5, cal_centerY = 0.5, cal_rangeX = 0.3,
                        cal_rangeY = 0.2, cal_isCalibrated = False\<rparr>,
      ht_smoothedX = Num 0, ht_smoothedY = Num 0, ht_smoothingFactor = Num 0.7\<rparr>"

text \<open>\<^verbatim>\<open>Math.atan2(y, x)\<close> on reals (no signed zero).\<close>

definition atan2 :: "real \<Rightarrow> real \<Rightarrow> real" where
  "atan2 b a =
     (if 0 < a then arctan (b / a)
      else if a < 0 then (if 0 \<le> b then arctan (b / a) + pi else arctan (b / a) - pi)
      else if 0 < b then pi / 2
      else if b < 0 then - (pi / 2)
      else 0)"

text \<open>\<^verbatim>\<open>v || d\<close> on numbers: \<open>d\<close> when \<open>v\<close> is zero.\<close>

definition or_default :: "real \<Rightarrow> real \<Rightarrow> real" where
  "or_default v d = (if v = 0 then d else v)"

definition setSmoothing :: "HeadTracker \<Rightarrow> number \<Rightarrow> HeadTracker" where
  "setSmoothing this factor =
     this\<lparr>ht_smoothingFactor := Math_max (Num 0) (Math_min (Num 1) factor)\<rparr>"

definition track :: "HeadTracker \<Rightarrow> Landmark list \<Rightarrow> (HeadPosition \<times> HeadTracker) option" where
  "track this landmarks = do {
     nose \<leftarrow> at_index landmarks HT_NOSE_TIP;
     forehead \<leftarrow> at_index landmarks FOREHEAD_CENTER;
     chin \<leftarrow> at_index landmarks CHIN;
     leftEye \<leftarrow> at_index landmarks LEFT_EYE_OUTER;
     rightEye \<leftarrow> at_index landmarks RIGHT_EYE_OUTER;
     let rawX = exact_div (exact_sub (Num (lm_x nose)) (Num (cal_centerX (ht_calibration this))))
                          (Num (cal_rangeX (ht_calibration this)));
     let rawY = exact_div (exact_sub (Num (lm_y nose)) (Num (cal_centerY (ht_calibration this))))
                          (Num (cal_rangeY (ht_calibration this)));
     let rawX = Math_max (Num (- 1)) (Math_min (Num 1) rawX);
     let rawY = Math_max (Num (- 1)) (Math_min (Num 1) rawY);
     let smoothedX = exact_add (exact_mul (ht_smoothedX this) (ht_smoothingFactor this))
                       (exact_mul rawX (exact_sub (Num 1) (ht_smoothingFactor this)));
     let smoothedY = exact_add (exact_mul (ht_smoothedY this) (ht_smoothingFactor this))
                       (exact_mul rawY (exact_sub (Num 1) (ht_smoothingFactor this)));
     let this' = this\<lparr>ht_smoothedX := smoothedX, ht_smoothedY := smoothedY\<rparr>;
     let eyeDeltaY = lm_y rightEye - lm_y leftEye;
     let eyeDeltaX = lm_x rightEye - lm_x leftEye;
     let tilt = atan2 eyeDeltaY eyeDeltaX;
     let eyeCenter = (lm_x leftEye + lm_x rightEye) / 2;
     let noseToEyeCenter = lm_x nose - eyeCenter;
     let eyeDistance = \<bar>lm_x rightEye - lm_x leftEye\<bar>;
     let yaw = atan2 (noseToEyeCenter * 2) (or_default eyeDistance 0.1);
     let faceHeight = \<bar>lm_y forehead - lm_y chin\<bar>;
     let noseOffset = lm_y nose - lm_y forehead;
     let normalizedPitch = noseOffset / or_default faceHeight 0.1;
     let pitch = atan2 (normalizedPitch - 0.5) 1;
     Some (\<lparr>hp_x = smoothedX, hp_y = smoothedY, hp_tilt = tilt, hp_yaw = yaw,
            hp_pitch = pitch\<rparr>, this')
   }"


section \<open>SleepDetector (sleepDetection)\<close>

definition SD_NOSE_TIP :: nat where "SD_NOSE_TIP = 1"
definition FOREHEAD :: nat where "FOREHEAD = 10"

record HeadPose =
  pose_pitch :: real
  pose_yaw :: real
  pose_roll :: real

record SleepDetector =
  sd_eyeClosedFrames :: number
  sd_headDownFrames :: number
  sd_EYE_CLOSED_THRESHOLD :: number
  sd_HEAD_DOWN_THRESHOLD :: number
  sd_PITCH_THRESHOLD :: number
  sd_EAR_THRESHOLD :: real
  sd_sleepStartTime :: "real option"
  sd_totalSleepDuration :: real

definition new_SleepDetector :: SleepDetector where
  "new_SleepDetector =
     \<lparr>sd_eyeClosedFrames = Num 0, sd_headDownFrames = Num 0, sd_EYE_CLOSED_THRESHOLD = Num 45,
      sd_HEAD_DOWN_THRESHOLD = Num 30, sd_PITCH_THRESHOLD = Num 0.25, sd_EAR_THRESHOLD = 0.21,
      sd_sleepStartTime = None, sd_totalSleepDuration = 0\<rparr>"

record SleepDetectionResult =
  sdr_isSleeping :: bool
  sdr_sleepScore :: number
  sdr_eyeClosedDuration :: number
  sdr_headDownDuration :: number
  sdr_isHeadDown :: bool
  sdr_headPitch :: real

definition calculateHeadPose :: "Landmark list \<Rightarrow> HeadPose option" where
  "calculateHeadPose landmarks = do {
     noseTip \<leftarrow> at_index landmarks SD_NOSE_TIP;
     forehead \<leftarrow> at_index landmarks FOREHEAD;
     chin \<leftarrow> at_index landmarks CHIN;
     leftEye \<leftarrow> at_index landmarks LEFT_EYE_OUTER;
     rightEye \<leftarrow> at_index landmarks RIGHT_EYE_OUTER;
     let faceHeight = \<bar>lm_y forehead - lm_y chin\<bar>;
     let noseOffset = lm_y noseTip - lm_y forehead;
     let normalizedPitch = noseOffset / or_default faceHeight 1;
     let pitch = atan2 normalizedPitch 1;
     let eyeCenter = (lm_x leftEye + lm_x rightEye) / 2;
     let noseToEyeCenter = lm_x noseTip - eyeCenter;
     let eyeDistance = \<bar>lm_x rightEye - lm_x leftEye\<bar>;
     let yaw = atan2 (noseToEyeCenter * 2) (or_default eyeDistance 1);
     let eyeDeltaY = lm_y rightEye - lm_y leftEye;
     let eyeDeltaX = lm_x rightEye - lm_x leftEye;
     let roll = atan2 eyeDeltaY (or_default eyeDeltaX 1);
     Some \<lparr>pose_pitch = pitch, pose_yaw = yaw, pose_roll = roll\<rparr>
   }"

text \<open>
  The two local constants \<^verbatim>\<open>eyeScore\<close> and \<^verbatim>\<open>headScore\<close> of \<^verbatim>\<open>detect\<close>, as
  functions of the detector after its counters were updated.
\<close>

definition eyeScore :: "SleepDetector \<Rightarrow> number" where
  "eyeScore this =
     Math_min (Num 100)
       (js_mul (js_div (sd_eyeClosedFrames this) (sd_EYE_CLOSED_THRESHOLD this)) (Num 60))"

definition headScore :: "SleepDetector \<Rightarrow> number" where
  "headScore this =
     Math_min (Num 40)
       (js_mul (js_div (sd_headDownFrames this) (sd_HEAD_DOWN_THRESHOLD this)) (Num 40))"

definition SleepDetector_detect ::
  "SleepDetector \<Rightarrow> Landmark list \<Rightarrow> real \<Rightarrow> (SleepDetectionResult \<times> SleepDetector) option" where
  "SleepDetector_detect this landmarks currentTime = do {
     eyesClosed \<leftarrow> areEyesClosed landmarks (sd_EAR_THRESHOLD this);
     headPose \<leftarrow> calculateHeadPose landmarks;
     let isHeadDown = js_gt (Num (pose_pitch headPose)) (sd_PITCH_THRESHOLD this);
     let this1 = this\<lparr>sd_eyeClosedFrames :=
                   (if eyesClosed then js_add (sd_eyeClosedFrames this) (Num 1)
                    else Math_max (Num 0) (js_sub (sd_eyeClosedFrames this) (Num 2)))\<rparr>;
     let this2 = this1\<lparr>sd_headDownFrames :=
                   (if isHeadDown then js_add (sd_headDownFrames this1) (Num 1)
                    else Math_max (Num 0) (js_sub (sd_headDownFrames this1) (Num 2)))\<rparr>;
     let eyesFactor = js_ge (sd_eyeClosedFrames this2) (sd_EYE_CLOSED_THRESHOLD this2);
     let headFactor = js_ge (sd_headDownFrames this2) (sd_HEAD_DOWN_THRESHOLD this2);
     let combinedFactor =
           (eyesClosed \<and> js_ge (sd_headDownFrames this2)
                             (js_div (sd_HEAD_DOWN_THRESHOLD this2) (Num 2)));
     let isSleeping = (eyesFactor \<or> (eyesClosed \<and> headFactor) \<or> combinedFactor);
     let this3 =
           (if isSleeping
            then (case sd_sleepStartTime this2 of
                    None \<Rightarrow> this2\<lparr>sd_sleepStartTime := Some currentTime\<rparr>
                  | Some t \<Rightarrow> this2)
            else (case sd_sleepStartTime this2 of
                    None \<Rightarrow> this2
                  | Some t \<Rightarrow> this2\<lparr>sd_totalSleepDuration :=
                                        sd_totalSleepDuration this2 + (currentTime - t),
                                      sd_sleepStartTime := None\<rparr>));
     let sleepScore = Math_min (Num 100) (js_add (eyeScore this3) (headScore this3));
     Some (\<lparr>sdr_isSleeping = isSleeping, sdr_sleepScore = Math_round sleepScore,
            sdr_eyeClosedDuration = sd_eyeClosedFrames this3,
            sdr_headDownDuration = sd_headDownFrames this3,
            sdr_isHeadDown = isHeadDown, sdr_headPitch = pose_pitch headPose\<rparr>, this3)
   }"

record SleepThresholdOptions =
  eyeClosedThreshold :: "number option"
  headDownThreshold :: "number option"
  pitchThreshold :: "number option"

text \<open>An absent option (\<^verbatim>\<open>undefined\<close>) is \<^term>\<open>None\<close> and leaves its field as it is.\<close>

definition SleepDetector_setThresholds :: "SleepDetector \<Rightarrow> SleepThresholdOptions \<Rightarrow> SleepDetector" where
  "SleepDetector_setThresholds this options =
     (let this1 = (case eyeClosedThreshold options of
                     Some v \<Rightarrow> this\<lparr>sd_EYE_CLOSED_THRESHOLD := v\<rparr> | None \<Rightarrow> this);
          this2 = (case headDownThreshold options of
                     Some v \<Rightarrow> this1\<lparr>sd_HEAD_DOWN_THRESHOLD := v\<rparr> | None \<Rightarrow> this1)
      in (case pitchThreshold options of
            Some v \<Rightarrow> this2\<lparr>sd_PITCH_THRESHOLD := v\<rparr> | None \<Rightarrow> this2))"

definition SleepDetector_reset :: "SleepDetector \<Rightarrow> SleepDetector" where
  "SleepDetector_reset this =
     this\<lparr>sd_eyeClosedFrames := Num 0, sd_headDownFrames := Num 0, sd_sleepStartTime := None,
          sd_totalSleepDuration := 0\<rparr>"

section \<open>FatigueDetector (fatigueDetection)\<close>

record FatigueDetector =
  fd_blinkTimestamps :: "real list"
  fd_blinkDurations :: "real list"
  fd_lastBlinkStart :: "real option"
  fd_wasBlinking :: bool
  fd_leftEyeHistory :: "bool list"
  fd_rightEyeHistory :: "bool list"
  fd_eyeHistoryMaxLength :: nat
  fd_yawnCount :: int
  fd_lastYawnTime :: real
  fd_mouthOpenDuration :: real
  fd_mouthWasOpen :: bool
  fd_mouthOpenStart :: real
  fd_headYHistory :: "real list"
  fd_headDroopEvents :: int
  fd_headYBaseline :: "real option"
  fd_sessionStartTime :: "real option"
  fd_breakInterval :: real
  fd_lastBreakTime :: "real option"

definition YAWN_DURATION_THRESHOLD :: real where "YAWN_DURATION_THRESHOLD = 2000"
definition HEAD_DROOP_THRESHOLD :: real where "HEAD_DROOP_THRESHOLD = 0.15"

definition new_FatigueDetector :: "real \<Rightarrow> FatigueDetector" where
  "new_FatigueDetector breakIntervalMinutes =
     \<lparr>fd_blinkTimestamps = [], fd_blinkDurations = [], fd_lastBlinkStart = None,
      fd_wasBlinking = False, fd_leftEyeHistory = [], fd_rightEyeHistory = [],
      fd_eyeHistoryMaxLength = 30, fd_yawnCount = 0, fd_lastYawnTime = 0,
      fd_mouthOpenDuration = 0, fd_mouthWasOpen = False, fd_mouthOpenStart = 0,
      fd_headYHistory = [], fd_headDroopEvents = 0, fd_headYBaseline = None,
      fd_sessionStartTime = None, fd_breakInterval = breakIntervalMinutes * 60 * 1000,
      fd_lastBreakTime = None\<rparr>"

definition setBreakInterval :: "FatigueDetector \<Rightarrow> real \<Rightarrow> FatigueDetector" where
  "setBreakInterval this minutes = this\<lparr>fd_breakInterval := minutes * 60 * 1000\<rparr>"

definition FatigueDetector_reset :: "FatigueDetector \<Rightarrow> FatigueDetector" where
  "FatigueDetector_reset this =
     this\<lparr>fd_blinkTimestamps := [], fd_blinkDurations := [], fd_yawnCount := 0,
          fd_headDroopEvents := 0, fd_leftEyeHistory := [], fd_rightEyeHistory := [],
          fd_headYHistory := [], fd_headYBaseline := None\<rparr>"

definition FatigueDetector_startSession :: "FatigueDetector \<Rightarrow> real \<Rightarrow> FatigueDetector" where
  "FatigueDetector_startSession this now =
     FatigueDetector_reset (this\<lparr>fd_sessionStartTime := Some now, fd_lastBreakTime := Some now\<rparr>)"

definition FatigueDetector_endSession :: "FatigueDetector \<Rightarrow> FatigueDetector" where
  "FatigueDetector_endSession this = this\<lparr>fd_sessionStartTime := None\<rparr>"

definition FatigueDetector_recordBreak :: "FatigueDetector \<Rightarrow> real \<Rightarrow> FatigueDetector" where
  "FatigueDetector_recordBreak this now =
     this\<lparr>fd_lastBreakTime := Some now,
          fd_yawnCount := max 0 (fd_yawnCount this - 2),
          fd_headDroopEvents := max 0 (fd_headDroopEvents this - 1)\<rparr>"

text \<open>
  The loop of \<^verbatim>\<open>processEyeState\<close> that drops blinks older than two minutes:
  while the first timestamp is older than the bound, both arrays are shifted
  (\<^verbatim>\<open>shift\<close> of an empty array leaves it empty, as \<^term>\<open>tl\<close> does).
\<close>

fun dropOldBlinks :: "real \<Rightarrow> real list \<Rightarrow> real list \<Rightarrow> real list \<times> real list" where
  "dropOldBlinks bound [] ds = ([], ds)"
| "dropOldBlinks bound (t # ts) ds =
     (if t < bound then dropOldBlinks bound ts (tl ds) else (t # ts, ds))"

definition processEyeState :: "FatigueDetector \<Rightarrow> bool \<Rightarrow> bool \<Rightarrow> real \<Rightarrow> FatigueDetector" where
  "processEyeState this leftEyeOpen rightEyeOpen now =
     (let isBlinking = (\<not> leftEyeOpen \<and> \<not> rightEyeOpen);
          lh = fd_leftEyeHistory this @ [leftEyeOpen];
          rh = fd_rightEyeHistory this @ [rightEyeOpen];
          this1 = (if length lh > fd_eyeHistoryMaxLength this
                   then this\<lparr>fd_leftEyeHistory := tl lh, fd_rightEyeHistory := tl rh\<rparr>
                   else this\<lparr>fd_leftEyeHistory := lh, fd_rightEyeHistory := rh\<rparr>);
          this2 = (if isBlinking \<and> \<not> fd_wasBlinking this1
                   then this1\<lparr>fd_lastBlinkStart := Some now\<rparr> else this1);
          this3 =
            (case fd_lastBlinkStart this2 of
               None \<Rightarrow> this2
             | Some start \<Rightarrow>
                 if \<not> isBlinking \<and> fd_wasBlinking this2 \<and> start \<noteq> 0
                 then (let blinkDuration = now - start;
                           this2' =
                             (if blinkDuration \<ge> 50 \<and> blinkDuration \<le> 500
                              then (let (ts, ds) =
                                          dropOldBlinks (now - 120000)
                                            (fd_blinkTimestamps this2 @ [now])
                                            (fd_blinkDurations this2 @ [blinkDuration])
                                    in this2\<lparr>fd_blinkTimestamps := ts, fd_blinkDurations := ds\<rparr>)
                              else this2)
                       in this2'\<lparr>fd_lastBlinkStart := None\<rparr>)
                 else this2)
      in this3\<lparr>fd_wasBlinking := isBlinking\<rparr>)"

definition processMouthState :: "FatigueDetector \<Rightarrow> bool \<Rightarrow> real \<Rightarrow> real \<Rightarrow> FatigueDetector" where
  "processMouthState this isMouthOpen mouthOpenRatio now =
     (let this1 =
            (if isMouthOpen \<and> mouthOpenRatio > 0.6
             then (let a = (if \<not> fd_mouthWasOpen this
                            then this\<lparr>fd_mouthOpenStart := now\<rparr> else this);
                       b = a\<lparr>fd_mouthOpenDuration := now - fd_mouthOpenStart a\<rparr>
                   in if fd_mouthOpenDuration b \<ge> YAWN_DURATION_THRESHOLD
                         \<and> now - fd_lastYawnTime b > 5000
                      then b\<lparr>fd_yawnCount := fd_yawnCount b + 1, fd_lastYawnTime := now\<rparr>
                      else b)
             else this\<lparr>fd_mouthOpenDuration := 0\<rparr>)
      in this1\<lparr>fd_mouthWasOpen := (isMouthOpen \<and> mouthOpenRatio > 0.6)\<rparr>)"

text \<open>\<^verbatim>\<open>xs.slice(-n)\<close>: the last \<open>n\<close> elements, or all of them when there are fewer.\<close>

definition slice_last :: "nat \<Rightarrow> 'a list \<Rightarrow> 'a list" where
  "slice_last n xs = drop (length xs - n) xs"

definition processHeadPosition :: "FatigueDetector \<Rightarrow> real \<Rightarrow> FatigueDetector" where
  "processHeadPosition this headY =
     (let this1 =
            (if fd_headYBaseline this = None \<and> length (fd_headYHistory this) \<ge> 30
             then this\<lparr>fd_headYBaseline :=
                         Some (sum_list (fd_headYHistory this)
                                 / real (length (fd_headYHistory this)))\<rparr>
             else this);
          h = fd_headYHistory this1 @ [headY];
          this2 = this1\<lparr>fd_headYHistory := (if length h > 60 then tl h else h)\<rparr>
      in case fd_headYBaseline this2 of
           None \<Rightarrow> this2
         | Some baseline \<Rightarrow>
             (let droopAmount = headY - baseline
              in if droopAmount > HEAD_DROOP_THRESHOLD
                 then (let recentAvg = sum_list (slice_last 10 (fd_headYHistory this2)) / 10
                       in if recentAvg - baseline > HEAD_DROOP_THRESHOLD * 0.8
                          then this2\<lparr>fd_headDroopEvents := fd_headDroopEvents this2 + 1\<rparr>
                          else this2)
                 else this2))"

section \<open>The statistics of the accessibility store\<close>

text \<open>
  The \<^verbatim>\<open>stats\<close> slice of the store and the actions that write it; each action
  replaces \<^verbatim>\<open>stats\<close> by a copy with the named fields changed.
\<close>

record Stats =
  st_sessionStartTime :: "real option"
  st_clickCount :: int
  st_gestureCount :: int
  st_totalUsageTime :: real
  st_lastBreakTime :: "real option"

definition initial_Stats :: Stats where
  "initial_Stats = \<lparr>st_sessionStartTime = None, st_clickCount = 0, st_gestureCount = 0,
                     st_totalUsageTime = 0, st_lastBreakTime = None\<rparr>"

definition incrementClickCount :: "Stats \<Rightarrow> Stats" where
  "incrementClickCount stats = stats\<lparr>st_clickCount := st_clickCount stats + 1\<rparr>"

definition incrementGestureCount :: "Stats \<Rightarrow> Stats" where
  "incrementGestureCount stats = stats\<lparr>st_gestureCount := st_gestureCount stats + 1\<rparr>"

definition store_startSession :: "Stats \<Rightarrow> real \<Rightarrow> Stats" where
  "store_startSession stats now = stats\<lparr>st_sessionStartTime := Some now\<rparr>"

text \<open>\<^verbatim>\<open>if (state.stats.sessionStartTime)\<close>: a start time of 0 is falsy, like null.\<close>

definition store_endSession :: "Stats \<Rightarrow> real \<Rightarrow> Stats" where
  "store_endSession stats now =
     (case st_sessionStartTime stats of
        None \<Rightarrow> stats
      | Some start \<Rightarrow>
          if start \<noteq> 0
          then stats\<lparr>st_sessionStartTime := None,
                     st_totalUsageTime := st_totalUsageTime stats + (now - start)\<rparr>
          else stats)"

definition store_recordBreak :: "Stats \<Rightarrow> real \<Rightarrow> Stats" where
  "store_recordBreak stats now = stats\<lparr>st_lastBreakTime := Some now\<rparr>"

section \<open>Finger counting (fingerCounting)\<close>

type_synonym HandLandmark = Landmark

record fingerStates =
  fs_thumb :: bool
  fs_index :: bool
  fs_middle :: bool
  fs_ring :: bool
  fs_pinky :: bool

record FingerCountResult =
  fc_count :: nat
  fc_fingers :: "string list"
  fc_fingerStates :: fingerStates
  fc_gesture :: "string option"

text \<open>A chain of early returns: the first pattern that matches decides.\<close>

definition detectGesture :: "fingerStates \<Rightarrow> string option" where
  "detectGesture states =
     (let thumb = fs_thumb states; index = fs_index states; middle = fs_middle states;
          ring = fs_ring states; pinky = fs_pinky states
      in if \<not> thumb \<and> index \<and> middle \<and> \<not> ring \<and> \<not> pinky then Some ''Peace Sign''
         else if thumb \<and> \<not> index \<and> \<not> middle \<and> \<not> ring \<and> \<not> pinky then Some ''Thumbs Up''
         else if thumb \<and> index \<and> \<not> middle \<and> \<not> ring \<and> \<not> pinky then Some ''Point''
         else if \<not> thumb \<and> index \<and> \<not> middle \<and> \<not> ring \<and> pinky then Some ''Rock Sign''
         else if thumb \<and> \<not> index \<and> \<not> middle \<and> \<not> ring \<and> pinky then Some ''Call Me''
         else if \<not> thumb \<and> \<not> index \<and> \<not> middle \<and> \<not> ring \<and> \<not> pinky then Some ''Fist''
         else if thumb \<and> index \<and> middle \<and> ring \<and> pinky then Some ''Open Hand''
         else if \<not> thumb \<and> index \<and> middle \<and> ring \<and> \<not> pinky then Some ''Three''
         else if \<not> thumb \<and> index \<and> middle \<and> ring \<and> pinky then Some ''Four''
         else None)"

text \<open>
  Each of the five tests of \<^verbatim>\<open>countFingers\<close> adds one to \<^verbatim>\<open>count\<close>, appends the
  finger's name and sets its flag.
\<close>

definition countFingers :: "HandLandmark list \<Rightarrow> bool \<Rightarrow> FingerCountResult option" where
  "countFingers landmarks isRightHand = do {
     thumbTip \<leftarrow> at_index landmarks 4;
     thumbIP \<leftarrow> at_index landmarks 3;
     indexTip \<leftarrow> at_index landmarks 8;
     indexPip \<leftarrow> at_index landmarks 6;
     middleTip \<leftarrow> at_index landmarks 12;
     middlePip \<leftarrow> at_index landmarks 10;
     ringTip \<leftarrow> at_index landmarks 16;
     ringPip \<leftarrow> at_index landmarks 14;
     pinkyTip \<leftarrow> at_index landmarks 20;
     pinkyPip \<leftarrow> at_index landmarks 18;
     let thumb = (if isRightHand then lm_x thumbTip < lm_x thumbIP
                  else lm_x thumbTip > lm_x thumbIP);
     let index = lm_y indexTip < lm_y indexPip;
     let middle = lm_y middleTip < lm_y middlePip;
     let ring = lm_y ringTip < lm_y ringPip;
     let pinky = lm_y pinkyTip < lm_y pinkyPip;
     let count = (if thumb then 1 else 0) + (if index then 1 else 0)
                   + (if middle then 1 else 0) + (if ring then 1 else 0)
                   + (if pinky then 1 else 0);
     let raisedFingers = (if thumb then [''Thumb''] else []) @ (if index then [''Index''] else [])
                           @ (if middle then [''Middle''] else []) @ (if ring then [''Ring''] else [])
                           @ (if pinky then [''Pinky''] else []);
     let states = \<lparr>fs_thumb = thumb, fs_index = index, fs_middle = middle, fs_ring = ring,
                   fs_pinky = pinky\<rparr>;
     Some \<lparr>fc_count = count, fc_fingers = raisedFingers, fc_fingerStates = states,
           fc_gesture = detectGesture states\<rparr>
   }"

section \<open>GestureRecognizer (gestureRecognition)\<close>

text \<open>The type \<^verbatim>\<open>GestureType\<close> without its \<^verbatim>\<open>null\<close>, which is \<^term>\<open>None\<close>.\<close>

datatype GestureType =
  fist | openPalm | thumbsUp | thumbsDown | peaceSign | pointUp | pointLeft | pointRight
  | rockSign | okSign | ok | callMe | oneFingers | twoFingers | threeFingers | fourFingers
  | fiveFingers

record GestureResult =
  res_gesture :: "GestureType option"
  res_confidence :: real
  res_fingerCount :: nat
  res_fingerStates :: fingerStates

record GestureRecognizer =
  gr_lastGesture :: "GestureType option"
  gr_gestureStartTime :: "real option"
  gr_gestureHoldTime :: real
  gr_MIN_HOLD_TIME :: real
  gr_lastGestureTime :: real

text \<open>\<^verbatim>\<open>GESTURE_COOLDOWN\<close> is a readonly field that no method writes.\<close>

definition GESTURE_COOLDOWN :: real where
  "GESTURE_COOLDOWN = 500"

definition new_GestureRecognizer :: GestureRecognizer where
  "new_GestureRecognizer =
     \<lparr>gr_lastGesture = None, gr_gestureStartTime = None, gr_gestureHoldTime = 0,
      gr_MIN_HOLD_TIME = 300, gr_lastGestureTime = 0\<rparr>"

definition recognize :: "HandLandmark list \<Rightarrow> bool \<Rightarrow> GestureResult option" where
  "recognize landmarks isRightHand = do {
     fingerResult \<leftarrow> countFingers landmarks isRightHand;
     let count = fc_count fingerResult;
     let states = fc_fingerStates fingerResult;
     let thumb = fs_thumb states;
     let index = fs_index states;
     let middle = fs_middle states;
     let ring = fs_ring states;
     let pinky = fs_pinky states;
     (gesture, confidence) \<leftarrow>
       (if count = 0 then Some (Some fist, 0.95)
        else if thumb \<and> \<not> index \<and> \<not> middle \<and> \<not> ring \<and> \<not> pinky then do {
          thumbTip \<leftarrow> at_index landmarks 4;
          wrist \<leftarrow> at_index landmarks 0;
          if lm_y thumbTip < lm_y wrist then Some (Some thumbsUp, 0.9)
          else Some (Some thumbsDown, 0.85)
        }
        else if \<not> thumb \<and> index \<and> \<not> middle \<and> \<not> ring \<and> \<not> pinky then Some (Some pointUp, 0.9)
        else if \<not> thumb \<and> index \<and> middle \<and> \<not> ring \<and> \<not> pinky then Some (Some peaceSign, 0.9)
        else if \<not> thumb \<and> index \<and> middle \<and> ring \<and> \<not> pinky then Some (Some threeFingers, 0.85)
        else if \<not> thumb \<and> index \<and> middle \<and> ring \<and> pinky then Some (Some fourFingers, 0.85)
        else if thumb \<and> index \<and> middle \<and> ring \<and> pinky then Some (Some openPalm, 0.95)
        else if \<not> thumb \<and> index \<and> \<not> middle \<and> \<not> ring \<and> pinky then Some (Some rockSign, 0.85)
        else if thumb \<and> \<not> index \<and> \<not> middle \<and> \<not> ring \<and> pinky then Some (Some callMe, 0.85)
        else if count = 1 then Some (Some oneFingers, 0.8)
        else if count = 2 then Some (Some twoFingers, 0.8)
        else if count = 3 then Some (Some threeFingers, 0.8)
        else if count = 4 then Some (Some fourFingers, 0.8)
        else if count = 5 then Some (Some fiveFingers, 0.8)
        else Some (None, 0.8));
     Some \<lparr>res_gesture = gesture, res_confidence = confidence, res_fingerCount = count,
           res_fingerStates = states\<rparr>
   }"

definition detectHeldGesture ::
  "GestureRecognizer \<Rightarrow> HandLandmark list \<Rightarrow> bool \<Rightarrow> real
     \<Rightarrow> (GestureType option \<times> GestureRecognizer) option" where
  "detectHeldGesture this landmarks isRightHand now = do {
     result \<leftarrow> recognize landmarks isRightHand;
     if now - gr_lastGestureTime this < GESTURE_COOLDOWN then Some (None, this)
     else
       (let this1 =
              (if res_gesture result = gr_lastGesture this
               then (case gr_gestureStartTime this of
                       Some start \<Rightarrow> this\<lparr>gr_gestureHoldTime := now - start\<rparr>
                     | None \<Rightarrow> this)
               else this\<lparr>gr_lastGesture := res_gesture result,
                         gr_gestureStartTime := Some now,
                         gr_gestureHoldTime := 0\<rparr>)
        in if gr_gestureHoldTime this1 \<ge> gr_MIN_HOLD_TIME this1 \<and> res_gesture result \<noteq> None
           then Some (gr_lastGesture this1,
                      this1\<lparr>gr_lastGestureTime := now, gr_gestureStartTime := None,
                            gr_gestureHoldTime := 0, gr_lastGesture := None\<rparr>)
           else Some (None, this1))
   }"

definition setHoldTime :: "GestureRecognizer \<Rightarrow> real \<Rightarrow> GestureRecognizer" where
  "setHoldTime this ms = this\<lparr>gr_MIN_HOLD_TIME := ms\<rparr>"

definition GestureRecognizer_reset :: "GestureRecognizer \<Rightarrow> GestureRecognizer" where
  "GestureRecognizer_reset this =
     this\<lparr>gr_lastGesture := None, gr_gestureStartTime := None, gr_gestureHoldTime := 0\<rparr>"

text \<open>
  Polling the recogniser with a sequence of (landmarks, handedness, time) and collecting
  what each poll returns.
\<close>

fun poll_all ::
  "GestureRecognizer \<Rightarrow> (HandLandmark list \<times> bool \<times> real) list
     \<Rightarrow> (GestureType option list \<times> GestureRecognizer) option" where
  "poll_all this [] = Some ([], this)"
| "poll_all this ((landmarks, isRightHand, now) # rest) =
     (case detectHeldGesture this landmarks isRightHand now of
        None \<Rightarrow> None
      | Some (g, this') \<Rightarrow>
          (case poll_all this' rest of
             None \<Rightarrow> None
           | Some (gs, this'') \<Rightarrow> Some (g # gs, this'')))"

section \<open>EyeGestureDetector (faceGestures)\<close>

text \<open>
  The face-gesture module has its own copies of \<^verbatim>\<open>euclideanDistance\<close> and
  \<^verbatim>\<open>calculateEAR\<close>, the same text as in the blink module, applied to the points
  \<^verbatim>\<open>p1\<close> to \<^verbatim>\<open>p6\<close> of \<^verbatim>\<open>LEFT_EYE\<close> and \<^verbatim>\<open>RIGHT_EYE\<close>.
\<close>

definition LEFT_EYE :: eye_points where
  "LEFT_EYE = \<lparr>p1 = 33, p2 = 160, p3 = 158, p4 = 133, p5 = 153, p6 = 144\<rparr>"

definition RIGHT_EYE :: eye_points where
  "RIGHT_EYE = \<lparr>p1 = 362, p2 = 385, p3 = 387, p4 = 263, p5 = 373, p6 = 380\<rparr>"

record EyeState =
  es_leftOpen :: bool
  es_rightOpen :: bool
  es_leftEAR :: real
  es_rightEAR :: real
  es_isWinkingLeft :: bool
  es_isWinkingRight :: bool
  es_isBothClosed :: bool

record EyeGestureDetector =
  egd_leftEARHistory :: "real list"
  egd_rightEARHistory :: "real list"
  egd_WINK_THRESHOLD :: real
  egd_OPEN_THRESHOLD :: real
  egd_leftWinkStartTime :: "real option"
  egd_rightWinkStartTime :: "real option"

definition HISTORY_SIZE :: nat where "HISTORY_SIZE = 5"
definition WINK_DIFF_THRESHOLD :: real where "WINK_DIFF_THRESHOLD = 0.08"

definition new_EyeGestureDetector :: EyeGestureDetector where
  "new_EyeGestureDetector =
     \<lparr>egd_leftEARHistory = [], egd_rightEARHistory = [], egd_WINK_THRESHOLD = 0.18,
      egd_OPEN_THRESHOLD = 0.22, egd_leftWinkStartTime = None, egd_rightWinkStartTime = None\<rparr>"

text \<open>\<^verbatim>\<open>h.reduce((a, b) => a + b, 0) / h.length\<close>.\<close>

definition average :: "real list \<Rightarrow> real" where
  "average h = sum_list h / real (length h)"

definition EyeGestureDetector_detect ::
  "EyeGestureDetector \<Rightarrow> Landmark list \<Rightarrow> (EyeState \<times> EyeGestureDetector) option" where
  "EyeGestureDetector_detect this landmarks = do {
     leftEAR \<leftarrow> calculateEAR landmarks LEFT_EYE;
     rightEAR \<leftarrow> calculateEAR landmarks RIGHT_EYE;
     let lh = egd_leftEARHistory this @ [leftEAR];
     let rh = egd_rightEARHistory this @ [rightEAR];
     let this' = (if length lh > HISTORY_SIZE
                  then this\<lparr>egd_leftEARHistory := tl lh, egd_rightEARHistory := tl rh\<rparr>
                  else this\<lparr>egd_leftEARHistory := lh, egd_rightEARHistory := rh\<rparr>);
     let avgLeftEAR = average (egd_leftEARHistory this');
     let avgRightEAR = average (egd_rightEARHistory this');
     let leftOpen = avgLeftEAR > egd_OPEN_THRESHOLD this';
     let rightOpen = avgRightEAR > egd_OPEN_THRESHOLD this';
     let earDiff = \<bar>avgLeftEAR - avgRightEAR\<bar>;
     let isWinkingLeft = (\<not> leftOpen \<and> rightOpen \<and> earDiff > WINK_DIFF_THRESHOLD);
     let isWinkingRight = (\<not> rightOpen \<and> leftOpen \<and> earDiff > WINK_DIFF_THRESHOLD);
     let isBothClosed = (avgLeftEAR < egd_WINK_THRESHOLD this'
                          \<and> avgRightEAR < egd_WINK_THRESHOLD this');
     Some (\<lparr>es_leftOpen = leftOpen, es_rightOpen = rightOpen, es_leftEAR = avgLeftEAR,
            es_rightEAR = avgRightEAR, es_isWinkingLeft = isWinkingLeft,
            es_isWinkingRight = isWinkingRight, es_isBothClosed = isBothClosed\<rparr>, this')
   }"

definition EyeGestureDetector_setThresholds ::
  "EyeGestureDetector \<Rightarrow> real \<Rightarrow> real \<Rightarrow> EyeGestureDetector" where
  "EyeGestureDetector_setThresholds this wink open' =
     this\<lparr>egd_WINK_THRESHOLD := wink, egd_OPEN_THRESHOLD := open'\<rparr>"

section \<open>Fixtures\<close>

text \<open>
  A right hand of 21 landmarks with the thumb, the index and the middle finger raised:
  the thumb tip (4) lies left of its IP joint (3), the tips of the index (8) and the
  middle finger (12) lie above their PIP joints (6, 10), and the ring and pinky tips
  are level with theirs.
\<close>

definition hand_three :: "HandLandmark list" where
  "hand_three = (replicate 21 origin)
     [3 := \<lparr>lm_x = 1, lm_y = 0, lm_z = 0\<rparr>,
      6 := \<lparr>lm_x = 0, lm_y = 1, lm_z = 0\<rparr>,
      10 := \<lparr>lm_x = 0, lm_y = 1, lm_z = 0\<rparr>]"

text \<open>A face of 468 landmarks at the origin, with the nose tip (4) moved.\<close>

definition nose_frame :: "Landmark list" where
  "nose_frame = (replicate 468 origin)[4 := \<lparr>lm_x = 0.4, lm_y = 0.6, lm_z = 0\<rparr>]"

text \<open>A face of 468 landmarks, all at the origin: both eyes degenerate, the head level.\<close>

definition zero_frame :: "Landmark list" where
  "zero_frame = replicate 468 origin"

text \<open>
  A fatigue detector that has counted one yawn: the mouth is wide open (ratio 0.7) at
  time 10000 and still at time 12000.
\<close>

definition one_yawn :: FatigueDetector where
  "one_yawn = processMouthState (processMouthState (new_FatigueDetector 30) True 0.7 10000)
                True 0.7 12000"

section \<open>Evaluating the number operations\<close>

lemma pow2_pos: "0 < pow2 e"
  by (simp add: pow2_def)

lemma pow2_Suc: "pow2 (e + 1) = 2 * pow2 e"
proof (cases "0 \<le> e")
  case True
  then show ?thesis by (simp add: pow2_def nat_add_distrib)
next
  case False
  then have "nat (- e) = Suc (nat (- (e + 1)))" by simp
  then show ?thesis using False by (auto simp add: pow2_def)
qed

lemma pow2_mono_step: "pow2 e \<le> pow2 (e + 1)"
  using pow2_pos[of e] by (simp add: pow2_Suc)

lemma pow2_mono_nat: "pow2 e \<le> pow2 (e + int k)"
proof (induction k)
  case 0
  then show ?case by simp
next
  case (Suc k)
  have "pow2 (e + int k) \<le> pow2 (e + int k + 1)" by (rule pow2_mono_step)
  with Suc show ?case by (simp add: ac_simps)
qed

lemma pow2_mono: "a \<le> b \<Longrightarrow> pow2 a \<le> pow2 b"
  using pow2_mono_nat[of a "nat (b - a)"] by simp

lemma binade_from_ge: "e0 \<le> binade_from v e0"
proof (induction v e0 rule: binade_from.induct)
  case (1 v e)
  show ?case
  proof (cases "e < 1024 \<and> pow2 (e + 1) \<le> v")
    case True
    with 1 have "e + 1 \<le> binade_from v (e + 1)" by simp
    moreover have "binade_from v e = binade_from v (e + 1)"
      using True by (subst binade_from.simps) simp
    ultimately show ?thesis by simp
  next
    case False
    then have "binade_from v e = e" by (subst binade_from.simps) auto
    then show ?thesis by simp
  qed
qed

lemma binade_from_le: "e0 < binade_from v e0 \<Longrightarrow> pow2 (binade_from v e0) \<le> v"
proof (induction v e0 rule: binade_from.induct)
  case (1 v e)
  show ?case
  proof (cases "e < 1024 \<and> pow2 (e + 1) \<le> v")
    case True
    then have eq: "binade_from v e = binade_from v (e + 1)"
      by (subst binade_from.simps) simp
    show ?thesis
    proof (cases "e + 1 < binade_from v (e + 1)")
      case True
      with 1 \<open>e < 1024 \<and> pow2 (e + 1) \<le> v\<close> eq show ?thesis by simp
    next
      case False
      with binade_from_ge[of "e + 1" v] have "binade_from v (e + 1) = e + 1" by simp
      with eq True show ?thesis by simp
    qed
  next
    case False
    then have "binade_from v e = e" by (subst binade_from.simps) auto
    with "1.prems" show ?thesis by simp
  qed
qed

lemma round_half_even_of_int: "round_half_even (of_int m) = m"
  by (simp add: round_half_even_def)

lemma fl_of_int:
  assumes "\<bar>n\<bar> < 2 ^ 53"
  shows "fl (of_int n) = Num (of_int n)"
proof (cases "n = 0")
  case True
  then show ?thesis by (simp add: fl_def round_half_even_def not_le pow2_pos)
next
  case False
  define e where "e = binade_from \<bar>of_int n\<bar> (- 1022)"
  have lo: "- 1022 \<le> e" unfolding e_def by (rule binade_from_ge)
  have hi: "e \<le> 52"
  proof (rule ccontr)
    assume "\<not> e \<le> 52"
    then have "53 \<le> e" by simp
    then have "pow2 53 \<le> pow2 e" by (rule pow2_mono)
    moreover have "pow2 e \<le> \<bar>of_int n\<bar>"
      unfolding e_def using \<open>53 \<le> e\<close> e_def by (intro binade_from_le) simp
    moreover have "\<bar>real_of_int n\<bar> < 2 ^ 53"
      using assms by (metis of_int_abs of_int_less_numeral_power_cancel_iff)
    ultimately show False by (simp add: pow2_def)
  qed
  define k where "k = nat (52 - e)"
  have u: "pow2 (e - 52) = 1 / 2 ^ k"
    using hi by (auto simp add: pow2_def k_def)
  have q: "real_of_int n / pow2 (e - 52) = of_int (n * 2 ^ k)"
    by (simp add: u)
  have r: "of_int (round_half_even (real_of_int n / pow2 (e - 52))) * pow2 (e - 52) = real_of_int n"
    unfolding q round_half_even_of_int by (simp add: u)
  have big: "\<not> pow2 1024 \<le> \<bar>real_of_int n\<bar>"
  proof -
    have "\<bar>real_of_int n\<bar> < 2 ^ 53"
      using assms by (metis of_int_abs of_int_less_numeral_power_cancel_iff)
    moreover have "pow2 53 \<le> pow2 1024" by (rule pow2_mono) simp
    ultimately show ?thesis by (simp add: pow2_def)
  qed
  show ?thesis
    unfolding fl_def Let_def e_def[symmetric] r using big False by simp
qed

lemma fl_numeral [simp]:
  "\<bar>numeral w :: int\<bar> < 2 ^ 53 \<Longrightarrow> fl (numeral w) = Num (numeral w)"
  "\<bar>numeral w :: int\<bar> < 2 ^ 53 \<Longrightarrow> fl (- numeral w) = Num (- numeral w)"
  using fl_of_int[of "numeral w"] fl_of_int[of "- numeral w"] by simp_all

lemma fl_0 [simp]: "fl 0 = Num 0"
  using fl_of_int[of 0] by simp

lemma fl_1 [simp]: "fl 1 = Num 1"
  using fl_of_int[of 1] by simp

lemmas number_ops = exact_add_def exact_sub_def exact_mul_def exact_div_def negate_def
  is_inf_def is_zero_def value_of_def negative_def signed_zero_def signed_inf_def
  js_lt_def js_le_def js_gt_def js_ge_def rank_def Math_min_def Math_max_def
  js_add_def js_sub_def js_mul_def js_div_def to_double_def

lemma js_add_Num: "js_add (Num a) (Num b) = fl (a + b)"
  by (simp add: js_add_def exact_add_def to_double_def is_inf_def value_of_def)

lemma js_sub_Num: "js_sub (Num a) (Num b) = fl (a - b)"
  by (simp add: js_sub_def exact_sub_def exact_add_def negate_def to_double_def is_inf_def
      value_of_def)

lemma js_mul_Num:
  "js_mul (Num a) (Num b) =
     (if a = 0 \<or> b = 0 then signed_zero ((a < 0) \<noteq> (b < 0)) else fl (a * b))"
  by (simp add: js_mul_def exact_mul_def to_double_def is_inf_def is_zero_def value_of_def
      negative_def signed_zero_def)

lemma js_div_Num:
  "js_div (Num a) (Num b) =
     (if a = 0 \<and> b = 0 then NaN
      else if b = 0 then signed_inf (a < 0)
      else if a = 0 then signed_zero (b < 0)
      else fl (a / b))"
  by (simp add: js_div_def exact_div_def to_double_def is_inf_def is_zero_def value_of_def
      negative_def signed_zero_def signed_inf_def)

lemma Math_min_Num: "Math_min (Num a) (Num b) = Num (min a b)"
  by (simp add: Math_min_def js_lt_def rank_def value_of_def)

lemma Math_max_Num: "Math_max (Num a) (Num b) = Num (max a b)"
  by (simp add: Math_max_def js_lt_def rank_def value_of_def)

lemma js_compare_Num:
  "js_lt (Num a) (Num b) = (a < b)" "js_le (Num a) (Num b) = (a \<le> b)"
  "js_gt (Num a) (Num b) = (b < a)" "js_ge (Num a) (Num b) = (b \<le> a)"
  by (simp_all add: js_lt_def js_le_def js_gt_def js_ge_def rank_def value_of_def)

lemma NaN_propagates:
  "js_mul NaN b = NaN" "js_add NaN b = NaN" "js_add a NaN = NaN"
  "Math_min a NaN = NaN" "Math_min NaN b = NaN" "Math_round NaN = NaN"
  by (simp_all add: js_mul_def js_add_def exact_mul_def exact_add_def to_double_def
      Math_min_def Math_round_def)

lemmas number_eval = js_add_Num js_sub_Num js_mul_Num js_div_Num Math_min_Num Math_max_Num
  js_compare_Num NaN_propagates signed_zero_def signed_inf_def

section \<open>The eye aspect ratio\<close>

lemma euclideanDistance_nonneg: "0 \<le> euclideanDistance a b"
  by (simp add: euclideanDistance_def)

lemma calculateEAR_in_range:
  assumes "p1 pts < length lms" "p2 pts < length lms" "p3 pts < length lms"
    "p4 pts < length lms" "p5 pts < length lms" "p6 pts < length lms"
  shows "calculateEAR lms pts =
     Some (if euclideanDistance (lms ! p1 pts) (lms ! p4 pts) = 0 then 0
           else (euclideanDistance (lms ! p2 pts) (lms ! p6 pts)
                 + euclideanDistance (lms ! p3 pts) (lms ! p5 pts))
                / (2 * euclideanDistance (lms ! p1 pts) (lms ! p4 pts)))"
  using assms by (simp add: calculateEAR_def at_index_def Let_def)

lemma calculateEAR_None:
  assumes "\<not> (p1 pts < length lms \<and> p2 pts < length lms \<and> p3 pts < length lms \<and>
    p4 pts < length lms \<and> p5 pts < length lms \<and> p6 pts < length lms)"
  shows "calculateEAR lms pts = None"
  using assms by (auto simp add: calculateEAR_def at_index_def Let_def)

lemma calculateEAR_eye_frame:
  "0 \<le> e \<Longrightarrow> calculateEAR (eye_frame e) LEFT_EYE_EAR_POINTS = Some e"
  "0 \<le> e \<Longrightarrow> calculateEAR (eye_frame e) RIGHT_EYE_EAR_POINTS = Some e"
  by (simp_all add: calculateEAR_def eye_frame_def LEFT_EYE_EAR_POINTS_def
      RIGHT_EYE_EAR_POINTS_def at_index_def euclideanDistance_def origin_def)

lemma getEyeAspectRatio_eye_frame:
  "0 \<le> e \<Longrightarrow>
   getEyeAspectRatio (eye_frame e) = Some \<lparr>ear_left = e, ear_right = e, ear_avg = e\<rparr>"
  by (simp add: getEyeAspectRatio_def calculateEAR_eye_frame)

text \<open>
  Claim C5. When the landmark array holds all six indices of an eye, \<open>calculateEAR\<close>
  returns normally with a value that is not negative, and that value is exactly 0 when
  the two eye corners coincide (horizontal distance 0): the guard returns before the
  division.
\<close>

theorem calculateEAR_nonneg_and_degenerate:
  assumes "p1 pts < length lms" "p2 pts < length lms" "p3 pts < length lms"
    "p4 pts < length lms" "p5 pts < length lms" "p6 pts < length lms"
  shows "\<exists>e. calculateEAR lms pts = Some e \<and> 0 \<le> e \<and>
           (euclideanDistance (lms ! p1 pts) (lms ! p4 pts) = 0 \<longrightarrow> e = 0)"
  using assms by (simp add: calculateEAR_in_range euclideanDistance_nonneg)

theorem calculateEAR_nonneg_and_degenerate_witness:
  "p1 LEFT_EYE_EAR_POINTS < length (replicate 468 origin) \<and>
   p4 LEFT_EYE_EAR_POINTS < length (replicate 468 origin) \<and>
   euclideanDistance (replicate 468 origin ! p1 LEFT_EYE_EAR_POINTS)
     (replicate 468 origin ! p4 LEFT_EYE_EAR_POINTS) = 0 \<and>
   calculateEAR (replicate 468 origin) LEFT_EYE_EAR_POINTS = Some 0"
  using calculateEAR_nonneg_and_degenerate [of LEFT_EYE_EAR_POINTS "replicate 468 origin"]
  by (simp add: LEFT_EYE_EAR_POINTS_def euclideanDistance_def)

lemma euclideanDistance_scale:
  "euclideanDistance \<lparr>lm_x = k * lm_x a, lm_y = k * lm_y a, lm_z = k * lm_z a\<rparr>
      \<lparr>lm_x = k * lm_x b, lm_y = k * lm_y b, lm_z = k * lm_z b\<rparr>
   = \<bar>k\<bar> * euclideanDistance a b"
proof -
  have "(k * lm_x a - k * lm_x b)\<^sup>2 + (k * lm_y a - k * lm_y b)\<^sup>2
      = k\<^sup>2 * ((lm_x a - lm_x b)\<^sup>2 + (lm_y a - lm_y b)\<^sup>2)"
    by (simp add: power2_eq_square algebra_simps)
  then show ?thesis
    by (simp add: euclideanDistance_def real_sqrt_mult)
qed

lemma ratio_scale:
  fixes c :: real
  assumes "c \<noteq> 0"
  shows "(c * a + c * b) / (2 * (c * h)) = (a + b) / (2 * h)"
proof -
  have "(c * a + c * b) / (2 * (c * h)) = (c * (a + b)) / (c * (2 * h))"
    by (simp add: algebra_simps)
  also have "\<dots> = (a + b) / (2 * h)"
    using assms by simp
  finally show ?thesis .
qed

text \<open>
  Claim C6. The eye aspect ratio is invariant under scaling: multiplying every coordinate
  of every landmark by the same factor \<open>k \<noteq> 0\<close> leaves the result of \<open>calculateEAR\<close>
  unchanged, over the reals. Each of the three distances is multiplied by \<open>\<bar>k\<bar>\<close>, the
  zero test of the horizontal distance is unaffected, and the array keeps its length, so
  a call that throws still throws.
\<close>

theorem calculateEAR_scale_invariant:
  assumes "k \<noteq> 0"
  shows "calculateEAR (scale_landmarks k lms) pts = calculateEAR lms pts"
proof (cases "p1 pts < length lms \<and> p2 pts < length lms \<and> p3 pts < length lms \<and>
    p4 pts < length lms \<and> p5 pts < length lms \<and> p6 pts < length lms")
  case True
  then show ?thesis using assms
    by (simp add: calculateEAR_in_range scale_landmarks_def euclideanDistance_scale ratio_scale)
next
  case False
  then show ?thesis
    by (simp add: calculateEAR_None scale_landmarks_def)
qed

theorem calculateEAR_scale_invariant_witness:
  "(2::real) \<noteq> 0 \<and>
   calculateEAR (scale_landmarks 2 (eye_frame 0.1)) LEFT_EYE_EAR_POINTS = Some 0.1 \<and>
   calculateEAR (eye_frame 0.1) LEFT_EYE_EAR_POINTS = Some 0.1"
  using calculateEAR_scale_invariant [of 2 "eye_frame 0.1" LEFT_EYE_EAR_POINTS]
  by (simp add: calculateEAR_eye_frame)

section \<open>Blink counting\<close>

lemma detect_by_avg:
  assumes "getEyeAspectRatio f = Some r"
  shows "\<exists>res. BlinkDetector_detect s f = Some (res,
     if ear_avg r < bd_EAR_THRESHOLD s then s\<lparr>bd_frameCounter := bd_frameCounter s + 1\<rparr>
     else (if bd_frameCounter s \<ge> CONSEC_FRAMES
           then s\<lparr>bd_blinkCount := bd_blinkCount s + 1\<rparr> else s)\<lparr>bd_frameCounter := 0\<rparr>)"
  using assms
  by (auto simp add: getEyeAspectRatio_def BlinkDetector_detect_def Let_def
      split: Option.bind_splits)

lemma feed_low_frames:
  assumes "\<forall>f \<in> set fs. \<exists>r. getEyeAspectRatio f = Some r \<and> ear_avg r < bd_EAR_THRESHOLD s"
  shows "BlinkDetector_feed s (fs @ gs) =
         BlinkDetector_feed (s\<lparr>bd_frameCounter := bd_frameCounter s + int (length fs)\<rparr>) gs"
  using assms
proof (induction fs arbitrary: s)
  case Nil
  then show ?case by simp
next
  case (Cons f fs)
  from Cons.prems obtain r
    where r: "getEyeAspectRatio f = Some r" "ear_avg r < bd_EAR_THRESHOLD s"
    by auto
  from detect_by_avg[OF r(1), of s] r(2) obtain res where
    d: "BlinkDetector_detect s f = Some (res, s\<lparr>bd_frameCounter := bd_frameCounter s + 1\<rparr>)"
    by auto
  have "\<forall>f \<in> set fs. \<exists>r. getEyeAspectRatio f = Some r
          \<and> ear_avg r < bd_EAR_THRESHOLD (s\<lparr>bd_frameCounter := bd_frameCounter s + 1\<rparr>)"
    using Cons.prems by simp
  from Cons.IH[OF this] d show ?case by (simp add: add.assoc)
qed

text \<open>
  Claim C1. A fresh \<open>BlinkDetector\<close> (threshold 0.21, two consecutive frames) is fed
  the frames \<open>low\<close>, each with an average EAR below the threshold, and then one frame
  \<open>high\<close> whose average EAR is at or above it. Every call returns normally; afterwards
  \<open>blinkCount\<close> is 1 when \<open>low\<close> has at least two frames and 0 otherwise, and the
  consecutive-frame counter is 0. The average EAR of a frame is the \<open>avg\<close> that
  \<open>getEyeAspectRatio\<close> computes, the same expression as in \<open>detect\<close>. The witness
  runs the two sequences of the claim, [0.1, 0.1, 0.25] and [0.1, 0.25].
\<close>

theorem blink_counting:
  assumes "\<forall>f \<in> set low. \<exists>r. getEyeAspectRatio f = Some r \<and> ear_avg r < 0.21"
    and "getEyeAspectRatio high = Some r'" and "0.21 \<le> ear_avg r'"
  shows "\<exists>s'. BlinkDetector_feed new_BlinkDetector (low @ [high]) = Some s' \<and>
            bd_blinkCount s' = (if 2 \<le> length low then 1 else 0) \<and>
            bd_frameCounter s' = 0"
proof -
  let ?s = "new_BlinkDetector\<lparr>bd_frameCounter :=
              bd_frameCounter new_BlinkDetector + int (length low)\<rparr>"
  have t: "bd_EAR_THRESHOLD new_BlinkDetector = 0.21"
    by (simp add: new_BlinkDetector_def)
  have "BlinkDetector_feed new_BlinkDetector (low @ [high]) = BlinkDetector_feed ?s [high]"
    using assms(1) by (intro feed_low_frames) (simp add: t)
  moreover obtain res where "BlinkDetector_detect ?s high = Some (res,
       (if int (length low) \<ge> CONSEC_FRAMES
        then new_BlinkDetector\<lparr>bd_frameCounter := int (length low), bd_blinkCount := 1\<rparr>
        else new_BlinkDetector\<lparr>bd_frameCounter := int (length low)\<rparr>)\<lparr>bd_frameCounter := 0\<rparr>)"
    using detect_by_avg[OF assms(2), of ?s] assms(3)
    by (auto simp add: new_BlinkDetector_def)
  ultimately show ?thesis
    by (auto simp add: CONSEC_FRAMES_def new_BlinkDetector_def)
qed

theorem blink_counting_witness:
  "getEyeAspectRatio (eye_frame 0.1)
     = Some \<lparr>ear_left = 0.1, ear_right = 0.1, ear_avg = 0.1\<rparr> \<and>
   getEyeAspectRatio (eye_frame 0.25)
     = Some \<lparr>ear_left = 0.25, ear_right = 0.25, ear_avg = 0.25\<rparr> \<and>
   (\<exists>s'. BlinkDetector_feed new_BlinkDetector [eye_frame 0.1, eye_frame 0.1, eye_frame 0.25]
            = Some s' \<and> bd_blinkCount s' = 1 \<and> bd_frameCounter s' = 0) \<and>
   (\<exists>s'. BlinkDetector_feed new_BlinkDetector [eye_frame 0.1, eye_frame 0.25]
            = Some s' \<and> bd_blinkCount s' = 0 \<and> bd_frameCounter s' = 0)"
  using blink_counting [of "[eye_frame 0.1, eye_frame 0.1]" "eye_frame 0.25"]
        blink_counting [of "[eye_frame 0.1]" "eye_frame 0.25"]
  by (simp add: getEyeAspectRatio_eye_frame)

section \<open>Head tracker calibration\<close>





section \<open>Wink detection\<close>

text \<open>
  Claim C7. For every detector state and every frame that holds the eye indices (387 is
  the largest), \<open>EyeGestureDetector.detect\<close> returns, and when the smoothed left EAR it
  reports equals the smoothed right EAR, neither \<open>isWinkingLeft\<close> nor
  \<open>isWinkingRight\<close> is set. (With equal averages both eyes are open or both are not,
  and the difference 0 does not exceed 0.08.) The two histories have the same length in
  every state the detector reaches, so neither average divides by 0.
\<close>

theorem no_wink_on_equal_ear:
  assumes "387 < length lms"
  shows "\<exists>r s'. EyeGestureDetector_detect s lms = Some (r, s') \<and>
     (es_leftEAR r = es_rightEAR r \<longrightarrow> \<not> es_isWinkingLeft r \<and> \<not> es_isWinkingRight r)"
proof -
  obtain l where l: "calculateEAR lms LEFT_EYE = Some l"
    using assms by (simp add: calculateEAR_in_range LEFT_EYE_def)
  obtain r where r: "calculateEAR lms RIGHT_EYE = Some r"
    using assms by (simp add: calculateEAR_in_range RIGHT_EYE_def)
  show ?thesis
    by (simp add: EyeGestureDetector_detect_def l r Let_def)
qed

theorem no_wink_on_equal_ear_witness:
  "387 < length (eye_frame 0.1) \<and>
   (\<exists>r s'. EyeGestureDetector_detect new_EyeGestureDetector (eye_frame 0.1) = Some (r, s') \<and>
     es_leftEAR r = es_rightEAR r \<and> \<not> es_isWinkingLeft r \<and> \<not> es_isWinkingRight r)"
  using no_wink_on_equal_ear [of "eye_frame 0.1" new_EyeGestureDetector]
    calculateEAR_eye_frame [of "0.1"]
  by (simp add: EyeGestureDetector_detect_def eye_frame_def LEFT_EYE_def RIGHT_EYE_def
      LEFT_EYE_EAR_POINTS_def RIGHT_EYE_EAR_POINTS_def Let_def new_EyeGestureDetector_def
      HISTORY_SIZE_def average_def)

section \<open>Setters of the tunable parameters\<close>

lemma clamp_Num:
  "Math_max (Num 0) (Math_min (Num 1) (Num v)) = Num (max 0 (min 1 v))"
  by (simp add: number_ops)

lemma clamp_special:
  "Math_max (Num 0) (Math_min (Num 1) PosInf) = Num 1"
  "Math_max (Num 0) (Math_min (Num 1) NegInf) = Num 0"
  "Math_max (Num 0) (Math_min (Num 1) NegZero) = Num 0"
  "Math_max (Num 0) (Math_min (Num 1) NaN) = NaN"
  by (simp_all add: number_ops)

lemma track_NaN_factor:
  assumes "HT_NOSE_TIP < length lms" "FOREHEAD_CENTER < length lms" "CHIN < length lms"
    "LEFT_EYE_OUTER < length lms" "RIGHT_EYE_OUTER < length lms"
    and "ht_smoothingFactor s = NaN"
  shows "\<exists>pos s'. track s lms = Some (pos, s') \<and> hp_x pos = NaN \<and> hp_y pos = NaN \<and>
           ht_smoothedX s' = NaN \<and> ht_smoothedY s' = NaN"
  using assms
  by (simp add: track_def at_index_def Let_def exact_add_def exact_mul_def exact_sub_def negate_def)

text \<open>
  Claim C3, as the code has it. \<open>HeadTracker.setSmoothing\<close> clamps every argument
  other than NaN into [0, 1] (an infinity included) and stores NaN when it is given
  NaN. \<open>BlinkDetector.setThreshold\<close>, \<open>GestureRecognizer.setHoldTime\<close> and
  \<open>SleepDetector.setThresholds\<close> store the value they are given, whatever it is. NaN
  is produced downstream: after \<open>setSmoothing(NaN)\<close>, \<open>track\<close> returns NaN for
  \<open>x\<close> and \<open>y\<close> on every frame that holds the indices it reads.
\<close>

theorem setters_store_or_clamp:
  "ht_smoothingFactor (setSmoothing ht (Num v)) = Num (max 0 (min 1 v)) \<and>
   ht_smoothingFactor (setSmoothing ht PosInf) = Num 1 \<and>
   ht_smoothingFactor (setSmoothing ht NegInf) = Num 0 \<and>
   ht_smoothingFactor (setSmoothing ht NegZero) = Num 0 \<and>
   ht_smoothingFactor (setSmoothing ht NaN) = NaN \<and>
   bd_EAR_THRESHOLD (BlinkDetector_setThreshold bd threshold) = threshold \<and>
   gr_MIN_HOLD_TIME (setHoldTime gr ms) = ms \<and>
   SleepDetector_setThresholds sd
      \<lparr>eyeClosedThreshold = Some a, headDownThreshold = Some b, pitchThreshold = Some c\<rparr>
     = sd\<lparr>sd_EYE_CLOSED_THRESHOLD := a, sd_HEAD_DOWN_THRESHOLD := b, sd_PITCH_THRESHOLD := c\<rparr> \<and>
   (HT_NOSE_TIP < length lms \<and> FOREHEAD_CENTER < length lms \<and> CHIN < length lms \<and>
    LEFT_EYE_OUTER < length lms \<and> RIGHT_EYE_OUTER < length lms \<longrightarrow>
    (\<exists>pos s'. track (setSmoothing ht NaN) lms = Some (pos, s') \<and>
              hp_x pos = NaN \<and> hp_y pos = NaN))"
proof -
  have n: "ht_smoothingFactor (setSmoothing ht NaN) = NaN"
    by (simp add: setSmoothing_def clamp_special)
  have "\<exists>pos s'. track (setSmoothing ht NaN) lms = Some (pos, s') \<and>
              hp_x pos = NaN \<and> hp_y pos = NaN"
    if "HT_NOSE_TIP < length lms" "FOREHEAD_CENTER < length lms" "CHIN < length lms"
      "LEFT_EYE_OUTER < length lms" "RIGHT_EYE_OUTER < length lms"
    using track_NaN_factor[OF that n] by blast
  then show ?thesis
    by (simp add: setSmoothing_def clamp_Num clamp_special BlinkDetector_setThreshold_def
        setHoldTime_def SleepDetector_setThresholds_def)
qed

lemma track_after_setSmoothing_NaN:
  "map_option (hp_x \<circ> fst) (track (setSmoothing new_HeadTracker NaN) nose_frame) = Some NaN"
  "map_option (hp_y \<circ> fst) (track (setSmoothing new_HeadTracker NaN) nose_frame) = Some NaN"
proof -
  have n: "ht_smoothingFactor (setSmoothing new_HeadTracker NaN) = NaN"
    by (simp add: setSmoothing_def clamp_special)
  have l: "HT_NOSE_TIP < length nose_frame" "FOREHEAD_CENTER < length nose_frame"
    "CHIN < length nose_frame" "LEFT_EYE_OUTER < length nose_frame"
    "RIGHT_EYE_OUTER < length nose_frame"
    by (simp_all add: HT_NOSE_TIP_def FOREHEAD_CENTER_def CHIN_def LEFT_EYE_OUTER_def
        RIGHT_EYE_OUTER_def nose_frame_def)
  from track_NaN_factor[OF l n]
  show "map_option (hp_x \<circ> fst) (track (setSmoothing new_HeadTracker NaN) nose_frame) = Some NaN"
    "map_option (hp_y \<circ> fst) (track (setSmoothing new_HeadTracker NaN) nose_frame) = Some NaN"
    by auto
qed

text \<open>
  The claim as stated fails: a negative EAR threshold, a negative hold time and a
  negative frame threshold are each stored unchanged, \<open>setSmoothing\<close> stores NaN, and
  the next \<open>track\<close> returns NaN.
\<close>

theorem setters_store_invalid_values:
  "bd_EAR_THRESHOLD (BlinkDetector_setThreshold new_BlinkDetector (-1)) = -1 \<and>
   gr_MIN_HOLD_TIME (setHoldTime new_GestureRecognizer (-300)) = -300 \<and>
   sd_EYE_CLOSED_THRESHOLD (SleepDetector_setThresholds new_SleepDetector
      \<lparr>eyeClosedThreshold = Some (Num (-45)), headDownThreshold = None, pitchThreshold = None\<rparr>)
     = Num (-45) \<and>
   ht_smoothingFactor (setSmoothing new_HeadTracker NaN) = NaN \<and>
   map_option (hp_x \<circ> fst) (track (setSmoothing new_HeadTracker NaN) nose_frame) = Some NaN \<and>
   map_option (hp_y \<circ> fst) (track (setSmoothing new_HeadTracker NaN) nose_frame) = Some NaN"
  by (simp add: BlinkDetector_setThreshold_def setHoldTime_def SleepDetector_setThresholds_def
      track_after_setSmoothing_NaN) (simp add: setSmoothing_def clamp_special)

theorem setters_store_or_clamp_witness:
  "RIGHT_EYE_OUTER < length nose_frame \<and>
   (\<exists>pos s'. track (setSmoothing new_HeadTracker NaN) nose_frame = Some (pos, s') \<and>
              hp_x pos = NaN \<and> hp_y pos = NaN)"
  using setters_store_or_clamp [where ht = new_HeadTracker and lms = nose_frame]
  by (simp add: HT_NOSE_TIP_def FOREHEAD_CENTER_def CHIN_def LEFT_EYE_OUTER_def
      RIGHT_EYE_OUTER_def nose_frame_def)

section \<open>Gesture classification\<close>

lemma countFingers_returns:
  assumes "21 \<le> length lms"
  shows "\<exists>fr. countFingers lms h = Some fr \<and>
     fc_count fr = (if fs_thumb (fc_fingerStates fr) then 1 else 0)
        + (if fs_index (fc_fingerStates fr) then 1 else 0)
        + (if fs_middle (fc_fingerStates fr) then 1 else 0)
        + (if fs_ring (fc_fingerStates fr) then 1 else 0)
        + (if fs_pinky (fc_fingerStates fr) then 1 else 0)"
  using assms by (simp add: countFingers_def at_index_def Let_def)

lemma recognize_returns:
  assumes "21 \<le> length lms"
  shows "\<exists>r g. recognize lms h = Some r \<and> res_gesture r = Some g \<and> res_fingerCount r \<le> 5"
proof -
  from countFingers_returns[OF assms, of h] obtain fr where
    fr: "countFingers lms h = Some fr" and
    c: "fc_count fr = (if fs_thumb (fc_fingerStates fr) then 1 else 0)
        + (if fs_index (fc_fingerStates fr) then 1 else 0)
        + (if fs_middle (fc_fingerStates fr) then 1 else 0)
        + (if fs_ring (fc_fingerStates fr) then 1 else 0)
        + (if fs_pinky (fc_fingerStates fr) then 1 else 0)"
    by blast
  have i: "4 < length lms" "0 < length lms" using assms by auto
  show ?thesis
    using c i by (simp add: recognize_def fr at_index_def Let_def)
qed

text \<open>
  Claim C10. For every hand of 21 landmarks and either handedness, \<open>recognize\<close> returns
  a result whose gesture is not null and whose finger count is at most 5. The
  standalone classifier \<open>detectGesture\<close> has no fallback on the count: for thumb, index
  and middle raised with ring and pinky lowered it returns null. The witness is such a
  hand: \<open>recognize\<close> names it \<open>threeFingers\<close> and \<open>countFingers\<close> reports the count 3
  with the gesture null.
\<close>

theorem recognize_total_detectGesture_partial:
  assumes "length lms = 21"
  shows "(\<exists>r g. recognize lms h = Some r \<and> res_gesture r = Some g \<and> res_fingerCount r \<le> 5) \<and>
    detectGesture \<lparr>fs_thumb = True, fs_index = True, fs_middle = True, fs_ring = False,
                   fs_pinky = False\<rparr> = None"
  using recognize_returns[of lms h] assms by (simp add: detectGesture_def)

theorem recognize_total_detectGesture_partial_witness:
  "length hand_three = 21 \<and>
   (\<exists>r. recognize hand_three True = Some r \<and> res_gesture r = Some threeFingers \<and>
        res_fingerCount r = 3) \<and>
   (\<exists>fr. countFingers hand_three True = Some fr \<and> fc_count fr = 3 \<and> fc_gesture fr = None)"
  using recognize_total_detectGesture_partial [of hand_three True]
  by (simp add: hand_three_def recognize_def countFingers_def at_index_def origin_def
      detectGesture_def Let_def)

section \<open>Sleep score\<close>

lemma areEyesClosed_returns:
  assumes "387 < length lms"
  shows "\<exists>b. areEyesClosed lms t = Some b"
proof -
  obtain l where l: "calculateEAR lms LEFT_EYE_EAR_POINTS = Some l"
    using assms by (simp add: calculateEAR_in_range LEFT_EYE_EAR_POINTS_def)
  obtain r where r: "calculateEAR lms RIGHT_EYE_EAR_POINTS = Some r"
    using assms by (simp add: calculateEAR_in_range RIGHT_EYE_EAR_POINTS_def)
  show ?thesis by (simp add: areEyesClosed_def l r Let_def)
qed

lemma calculateHeadPose_returns:
  assumes "387 < length lms"
  shows "\<exists>p. calculateHeadPose lms = Some p"
  using assms
  by (simp add: calculateHeadPose_def at_index_def Let_def SD_NOSE_TIP_def FOREHEAD_def
      CHIN_def LEFT_EYE_OUTER_def RIGHT_EYE_OUTER_def)

lemma Math_min_bound: "Math_min (Num c) v = NaN \<or> js_le (Math_min (Num c) v) (Num c)"
  by (cases v) (auto simp add: Math_min_def js_lt_def js_le_def rank_def value_of_def)

lemma Math_round_bound:
  assumes "v = NaN \<or> js_le v (Num 100)"
  shows "Math_round v = NaN \<or> js_le (Math_round v) (Num 100)"
proof (cases v)
  case (Num r)
  with assms have "r \<le> 100" by (simp add: js_le_def rank_def value_of_def)
  then have "r + 1 / 2 < 101" by simp
  then have "\<lfloor>r + 1 / 2\<rfloor> < 101" by (simp add: floor_less_iff)
  then have "real_of_int \<lfloor>r + 1 / 2\<rfloor> \<le> 100" by simp
  with Num show ?thesis
    by (simp add: Math_round_def js_le_def rank_def value_of_def)
qed (use assms in \<open>auto simp add: Math_round_def js_le_def rank_def value_of_def\<close>)

lemma eyeScore_bound: "eyeScore s = NaN \<or> js_le (eyeScore s) (Num 100)"
  unfolding eyeScore_def by (rule Math_min_bound)

lemma headScore_bound: "headScore s = NaN \<or> js_le (headScore s) (Num 40)"
  unfolding headScore_def by (rule Math_min_bound)

lemma SleepDetector_detect_returns:
  assumes "387 < length lms"
  shows "\<exists>r s'. SleepDetector_detect s lms now = Some (r, s')"
proof -
  obtain b where b: "areEyesClosed lms (sd_EAR_THRESHOLD s) = Some b"
    using areEyesClosed_returns[OF assms(1)] by blast
  obtain p where p: "calculateHeadPose lms = Some p"
    using calculateHeadPose_returns[OF assms(1)] by blast
  show ?thesis
    unfolding SleepDetector_detect_def b p Let_def by simp
qed

lemma SleepDetector_detect_score:
  assumes "SleepDetector_detect s lms now = Some (r, s')"
  shows "sdr_sleepScore r = Math_round (Math_min (Num 100) (js_add (eyeScore s') (headScore s')))"
proof -
  from assms obtain b p where "areEyesClosed lms (sd_EAR_THRESHOLD s) = Some b"
    "calculateHeadPose lms = Some p"
    by (auto simp add: SleepDetector_detect_def split: Option.bind_splits)
  with assms show ?thesis
    unfolding SleepDetector_detect_def Let_def by auto
qed

lemma zero_frame_closed: "0 < t \<Longrightarrow> areEyesClosed zero_frame t = Some True"
  by (simp add: areEyesClosed_def calculateEAR_def zero_frame_def at_index_def
      LEFT_EYE_EAR_POINTS_def RIGHT_EYE_EAR_POINTS_def euclideanDistance_def)

lemma zero_frame_pose:
  "calculateHeadPose zero_frame = Some \<lparr>pose_pitch = 0, pose_yaw = 0, pose_roll = 0\<rparr>"
  by (simp add: calculateHeadPose_def zero_frame_def at_index_def SD_NOSE_TIP_def FOREHEAD_def
      CHIN_def LEFT_EYE_OUTER_def RIGHT_EYE_OUTER_def origin_def or_default_def atan2_def)

lemma eye_frame_open: "0 \<le> e \<Longrightarrow> t \<le> e \<Longrightarrow> areEyesClosed (eye_frame e) t = Some False"
  by (simp add: areEyesClosed_def calculateEAR_eye_frame)

lemma eye_frame_pose:
  "\<exists>p. calculateHeadPose (eye_frame e) = Some p \<and> pose_pitch p = 0"
  by (simp add: calculateHeadPose_def eye_frame_def at_index_def SD_NOSE_TIP_def FOREHEAD_def
      CHIN_def LEFT_EYE_OUTER_def RIGHT_EYE_OUTER_def origin_def or_default_def atan2_def Let_def)

text \<open>
  Claim C2, as the code has it. For every detector state and every frame that holds the
  indices read (387 is the largest), \<open>detect\<close> returns, and its sleep score is
  \<open>Math.round\<close> of the sum of an eye contribution and a head contribution, the sum
  capped at 100. The head contribution never exceeds 40 and the score never exceeds
  100. The eye contribution never exceeds 100; its cap is 100, not 60. Each of the
  three bounds holds unless the value is NaN, as it is when a division is 0 / 0.
\<close>

theorem sleep_score_bounds:
  assumes "387 < length lms"
  shows "\<exists>r s'. SleepDetector_detect s lms now = Some (r, s') \<and>
     sdr_sleepScore r = Math_round (Math_min (Num 100) (js_add (eyeScore s') (headScore s'))) \<and>
     (eyeScore s' = NaN \<or> js_le (eyeScore s') (Num 100)) \<and>
     (headScore s' = NaN \<or> js_le (headScore s') (Num 40)) \<and>
     (sdr_sleepScore r = NaN \<or> js_le (sdr_sleepScore r) (Num 100))"
proof -
  obtain r s' where d: "SleepDetector_detect s lms now = Some (r, s')"
    using SleepDetector_detect_returns[OF assms(1)] by blast
  have sc: "sdr_sleepScore r = Math_round (Math_min (Num 100) (js_add (eyeScore s') (headScore s')))"
    using d by (rule SleepDetector_detect_score)
  have "sdr_sleepScore r = NaN \<or> js_le (sdr_sleepScore r) (Num 100)"
    unfolding sc by (rule Math_round_bound) (rule Math_min_bound)
  with d sc show ?thesis
    using eyeScore_bound[of s'] headScore_bound[of s'] by blast
qed

lemma detect_44_frames:
  "SleepDetector_detect (new_SleepDetector\<lparr>sd_eyeClosedFrames := Num 44\<rparr>) zero_frame 0 =
     Some (\<lparr>sdr_isSleeping = True, sdr_sleepScore = Num 60, sdr_eyeClosedDuration = Num 45,
            sdr_headDownDuration = Num 0, sdr_isHeadDown = False, sdr_headPitch = 0\<rparr>,
           new_SleepDetector\<lparr>sd_eyeClosedFrames := Num 45, sd_sleepStartTime := Some 0\<rparr>)"
  by (simp add: SleepDetector_detect_def new_SleepDetector_def zero_frame_closed zero_frame_pose
      eyeScore_def headScore_def Math_round_def Let_def number_eval)

theorem sleep_score_bounds_witness:
  "387 < length zero_frame \<and>
   (\<exists>r s'. SleepDetector_detect (new_SleepDetector\<lparr>sd_eyeClosedFrames := Num 44\<rparr>) zero_frame 0
              = Some (r, s') \<and>
     sdr_sleepScore r = Num 60 \<and> js_le (eyeScore s') (Num 100) \<and> js_le (headScore s') (Num 40) \<and>
     js_le (sdr_sleepScore r) (Num 100))"
proof -
  have len: "387 < length zero_frame"
    by (simp add: zero_frame_def)
  let ?S = "new_SleepDetector\<lparr>sd_eyeClosedFrames := Num 45, sd_sleepStartTime := Some 0\<rparr>"
  have e: "eyeScore ?S = Num 60" "headScore ?S = Num 0"
    by (simp_all add: eyeScore_def headScore_def new_SleepDetector_def number_eval)
  from sleep_score_bounds [OF len, of "new_SleepDetector\<lparr>sd_eyeClosedFrames := Num 44\<rparr>" 0]
  have "(eyeScore ?S = NaN \<or> js_le (eyeScore ?S) (Num 100)) \<and>
        (headScore ?S = NaN \<or> js_le (headScore ?S) (Num 40))"
    by (auto simp add: detect_44_frames)
  then have "js_le (eyeScore ?S) (Num 100) \<and> js_le (headScore ?S) (Num 40)"
    by (simp add: e)
  then show ?thesis
    using len by (simp add: detect_44_frames js_le_def rank_def value_of_def)
qed

lemma detect_89_frames:
  "SleepDetector_detect (new_SleepDetector\<lparr>sd_eyeClosedFrames := Num 89\<rparr>) zero_frame 0 =
     Some (\<lparr>sdr_isSleeping = True, sdr_sleepScore = Num 100, sdr_eyeClosedDuration = Num 90,
            sdr_headDownDuration = Num 0, sdr_isHeadDown = False, sdr_headPitch = 0\<rparr>,
           new_SleepDetector\<lparr>sd_eyeClosedFrames := Num 90, sd_sleepStartTime := Some 0\<rparr>)"
  by (simp add: SleepDetector_detect_def new_SleepDetector_def zero_frame_closed zero_frame_pose
      eyeScore_def headScore_def Math_round_def Let_def number_eval)

lemma detect_zero_threshold:
  "map_option (sdr_sleepScore \<circ> fst)
     (SleepDetector_detect
        (SleepDetector_setThresholds new_SleepDetector
           \<lparr>eyeClosedThreshold = Some (Num 0), headDownThreshold = None, pitchThreshold = None\<rparr>)
        (eye_frame 0.3) 0) = Some NaN"
proof -
  obtain p where p: "calculateHeadPose (eye_frame 0.3) = Some p" "pose_pitch p = 0"
    using eye_frame_pose by blast
  have o: "areEyesClosed (eye_frame 0.3) 0.21 = Some False"
    by (rule eye_frame_open) simp_all
  show ?thesis
    using o
    by (simp add: SleepDetector_detect_def SleepDetector_setThresholds_def new_SleepDetector_def
        p eyeScore_def headScore_def Math_round_def Let_def number_eval)
qed

text \<open>
  The claim as stated fails twice. After 90 closed-eye frames with the head level the
  eye contribution is 100, above 60, with a head contribution of 0. And with the eye
  threshold set to 0 and open eyes, the eye contribution is 0 / 0 and the score
  returned is NaN, which is not bounded by anything.
\<close>

theorem eye_score_exceeds_60_and_score_NaN:
  "SleepDetector_detect (new_SleepDetector\<lparr>sd_eyeClosedFrames := Num 89\<rparr>) zero_frame 0 =
     Some (\<lparr>sdr_isSleeping = True, sdr_sleepScore = Num 100, sdr_eyeClosedDuration = Num 90,
            sdr_headDownDuration = Num 0, sdr_isHeadDown = False, sdr_headPitch = 0\<rparr>,
           new_SleepDetector\<lparr>sd_eyeClosedFrames := Num 90, sd_sleepStartTime := Some 0\<rparr>) \<and>
   eyeScore (new_SleepDetector\<lparr>sd_eyeClosedFrames := Num 90, sd_sleepStartTime := Some 0\<rparr>)
     = Num 100 \<and>
   headScore (new_SleepDetector\<lparr>sd_eyeClosedFrames := Num 90, sd_sleepStartTime := Some 0\<rparr>)
     = Num 0 \<and>
   \<not> js_le (eyeScore (new_SleepDetector\<lparr>sd_eyeClosedFrames := Num 90,
                                          sd_sleepStartTime := Some 0\<rparr>)) (Num 60) \<and>
   map_option (sdr_sleepScore \<circ> fst)
     (SleepDetector_detect
        (SleepDetector_setThresholds new_SleepDetector
           \<lparr>eyeClosedThreshold = Some (Num 0), headDownThreshold = None, pitchThreshold = None\<rparr>)
        (eye_frame 0.3) 0) = Some NaN"
  by (simp add: detect_89_frames detect_zero_threshold)
    (simp add: eyeScore_def headScore_def new_SleepDetector_def number_eval)

section \<open>Cumulative counters\<close>

lemma processEyeState_counters:
  "fd_yawnCount (processEyeState fd l r now) = fd_yawnCount fd"
  "fd_headDroopEvents (processEyeState fd l r now) = fd_headDroopEvents fd"
  by (simp_all add: processEyeState_def Let_def split: option.split prod.split)

lemma processMouthState_counters:
  "fd_yawnCount fd \<le> fd_yawnCount (processMouthState fd b ratio now)"
  "fd_headDroopEvents (processMouthState fd b ratio now) = fd_headDroopEvents fd"
  by (simp_all add: processMouthState_def Let_def)

lemma processHeadPosition_counters:
  "fd_headDroopEvents fd \<le> fd_headDroopEvents (processHeadPosition fd headY)"
  "fd_yawnCount (processHeadPosition fd headY) = fd_yawnCount fd"
  by (simp_all add: processHeadPosition_def Let_def split: option.split)

lemma BlinkDetector_detect_blinkCount:
  assumes "BlinkDetector_detect bd lms = Some (res, bd')"
  shows "bd_blinkCount bd \<le> bd_blinkCount bd'"
  using assms
  by (auto simp add: BlinkDetector_detect_def Let_def split: Option.bind_splits if_splits)

text \<open>
  Claim C4, as the code has it. No per-frame processing call lowers a cumulative counter:
  \<open>BlinkDetector.detect\<close> never lowers \<open>blinkCount\<close>; \<open>processEyeState\<close>,
  \<open>processMouthState\<close> and \<open>processHeadPosition\<close> never lower \<open>yawnCount\<close> or
  \<open>headDroopEvents\<close>; the store's actions never lower \<open>gestureCount\<close>; and
  \<open>setBreakInterval\<close>, \<open>endSession\<close> and \<open>setThreshold\<close> leave the counters as
  they are. The operations that lower a counter are the resets (\<open>resetBlinkCount\<close>,
  \<open>reset\<close>, \<open>startSession\<close>), which set it to 0, and \<open>recordBreak\<close>, which takes
  2 off \<open>yawnCount\<close> and 1 off \<open>headDroopEvents\<close>, neither going below 0.
\<close>

theorem counters_never_lowered_by_frames:
  "(BlinkDetector_detect bd lms = Some (res, bd') \<longrightarrow> bd_blinkCount bd \<le> bd_blinkCount bd') \<and>
   fd_yawnCount (processEyeState fd l r now) = fd_yawnCount fd \<and>
   fd_headDroopEvents (processEyeState fd l r now) = fd_headDroopEvents fd \<and>
   fd_yawnCount fd \<le> fd_yawnCount (processMouthState fd b ratio now) \<and>
   fd_headDroopEvents (processMouthState fd b ratio now) = fd_headDroopEvents fd \<and>
   fd_headDroopEvents fd \<le> fd_headDroopEvents (processHeadPosition fd headY) \<and>
   fd_yawnCount (processHeadPosition fd headY) = fd_yawnCount fd \<and>
   st_gestureCount st \<le> st_gestureCount (incrementGestureCount st) \<and>
   st_gestureCount (incrementClickCount st) = st_gestureCount st \<and>
   st_gestureCount (store_recordBreak st now) = st_gestureCount st \<and>
   st_gestureCount (store_startSession st now) = st_gestureCount st \<and>
   st_gestureCount (store_endSession st now) = st_gestureCount st \<and>
   fd_yawnCount (setBreakInterval fd minutes) = fd_yawnCount fd \<and>
   fd_headDroopEvents (setBreakInterval fd minutes) = fd_headDroopEvents fd \<and>
   fd_yawnCount (FatigueDetector_endSession fd) = fd_yawnCount fd \<and>
   fd_headDroopEvents (FatigueDetector_endSession fd) = fd_headDroopEvents fd \<and>
   bd_blinkCount (BlinkDetector_setThreshold bd threshold) = bd_blinkCount bd \<and>
   fd_yawnCount (FatigueDetector_recordBreak fd now) = max 0 (fd_yawnCount fd - 2) \<and>
   fd_headDroopEvents (FatigueDetector_recordBreak fd now) = max 0 (fd_headDroopEvents fd - 1) \<and>
   bd_blinkCount (resetBlinkCount bd) = 0 \<and>
   fd_yawnCount (FatigueDetector_reset fd) = 0 \<and>
   fd_headDroopEvents (FatigueDetector_reset fd) = 0 \<and>
   fd_yawnCount (FatigueDetector_startSession fd now) = 0 \<and>
   fd_headDroopEvents (FatigueDetector_startSession fd now) = 0"
  using BlinkDetector_detect_blinkCount[of bd lms res bd']
  by (simp add: processEyeState_counters processMouthState_counters processHeadPosition_counters
      incrementGestureCount_def incrementClickCount_def store_recordBreak_def
      store_startSession_def store_endSession_def setBreakInterval_def
      FatigueDetector_endSession_def BlinkDetector_setThreshold_def
      FatigueDetector_recordBreak_def resetBlinkCount_def FatigueDetector_reset_def
      FatigueDetector_startSession_def split: option.split)

lemma one_yawn_count: "fd_yawnCount one_yawn = 1"
  by (simp add: one_yawn_def processMouthState_def new_FatigueDetector_def Let_def
      YAWN_DURATION_THRESHOLD_def)

text \<open>
  The claim as stated fails: \<open>recordBreak\<close> is not a reset, and it lowers the yawn
  count of a detector that has counted one yawn from 1 to 0.
\<close>

theorem recordBreak_lowers_yawnCount:
  "fd_yawnCount one_yawn = 1 \<and> fd_yawnCount (FatigueDetector_recordBreak one_yawn 13000) = 0"
  by (simp add: one_yawn_count FatigueDetector_recordBreak_def)

lemma detect_two_low_then_high:
  "BlinkDetector_detect (new_BlinkDetector\<lparr>bd_frameCounter := 2\<rparr>) (eye_frame 0.25) =
    Some (\<lparr>bdr_isBlinking = False, bdr_leftEAR = 0.25, bdr_rightEAR = 0.25, bdr_avgEAR = 0.25\<rparr>,
          new_BlinkDetector\<lparr>bd_blinkCount := 1\<rparr>)"
  by (simp add: BlinkDetector_detect_def calculateEAR_eye_frame new_BlinkDetector_def
      CONSEC_FRAMES_def Let_def)

theorem counters_never_lowered_by_frames_witness:
  "BlinkDetector_detect (new_BlinkDetector\<lparr>bd_frameCounter := 2\<rparr>) (eye_frame 0.25) =
    Some (\<lparr>bdr_isBlinking = False, bdr_leftEAR = 0.25, bdr_rightEAR = 0.25, bdr_avgEAR = 0.25\<rparr>,
          new_BlinkDetector\<lparr>bd_blinkCount := 1\<rparr>) \<and>
   bd_blinkCount (new_BlinkDetector\<lparr>bd_frameCounter := 2\<rparr>)
     \<le> bd_blinkCount (new_BlinkDetector\<lparr>bd_blinkCount := 1\<rparr>)"
  using counters_never_lowered_by_frames [of "new_BlinkDetector\<lparr>bd_frameCounter := 2\<rparr>" "eye_frame 0.25"
     "\<lparr>bdr_isBlinking = False, bdr_leftEAR = 0.25, bdr_rightEAR = 0.25, bdr_avgEAR = 0.25\<rparr>"
     "new_BlinkDetector\<lparr>bd_blinkCount := 1\<rparr>"]
    detect_two_low_then_high
  by simp

section \<open>Held gestures\<close>

lemma poll_cooldown:
  assumes "recognize lm h = Some r" and "now - gr_lastGestureTime s < GESTURE_COOLDOWN"
  shows "detectHeldGesture s lm h now = Some (None, s)"
  using assms by (simp add: detectHeldGesture_def)

lemma poll_first:
  assumes "recognize lm h = Some r" and "res_gesture r = Some g"
    and "gr_lastGesture s \<noteq> Some g"
    and "GESTURE_COOLDOWN \<le> now - gr_lastGestureTime s"
    and "0 < gr_MIN_HOLD_TIME s"
  shows "detectHeldGesture s lm h now =
     Some (None, s\<lparr>gr_lastGesture := Some g, gr_gestureStartTime := Some now,
                    gr_gestureHoldTime := 0\<rparr>)"
  using assms by (auto simp add: detectHeldGesture_def Let_def)

lemma poll_hold:
  assumes "recognize lm h = Some r" and "res_gesture r = Some g"
    and "gr_lastGesture s = Some g" and "gr_gestureStartTime s = Some t0"
    and "GESTURE_COOLDOWN \<le> now - gr_lastGestureTime s"
    and "now - t0 < gr_MIN_HOLD_TIME s"
  shows "detectHeldGesture s lm h now = Some (None, s\<lparr>gr_gestureHoldTime := now - t0\<rparr>)"
  using assms by (auto simp add: detectHeldGesture_def Let_def)

lemma poll_fire:
  assumes "recognize lm h = Some r" and "res_gesture r = Some g"
    and "gr_lastGesture s = Some g" and "gr_gestureStartTime s = Some t0"
    and "GESTURE_COOLDOWN \<le> now - gr_lastGestureTime s"
    and "gr_MIN_HOLD_TIME s \<le> now - t0"
  shows "detectHeldGesture s lm h now =
     Some (Some g, s\<lparr>gr_lastGesture := None, gr_gestureStartTime := None,
                      gr_gestureHoldTime := 0, gr_lastGestureTime := now\<rparr>)"
  using assms by (auto simp add: detectHeldGesture_def Let_def)

lemma poll_all_append:
  "poll_all s (xs @ ys) =
     (case poll_all s xs of
        None \<Rightarrow> None
      | Some (gs, s') \<Rightarrow>
          (case poll_all s' ys of
             None \<Rightarrow> None
           | Some (gs', s'') \<Rightarrow> Some (gs @ gs', s'')))"
  by (induction s xs rule: poll_all.induct) (auto split: option.splits)

lemma poll_all_holding:
  assumes "\<forall>(lm, h, t) \<in> set mid.
             (\<exists>r. recognize lm h = Some r \<and> res_gesture r = Some g) \<and>
             t0 \<le> t \<and> t - t0 < gr_MIN_HOLD_TIME s"
    and "gr_lastGesture s = Some g" and "gr_gestureStartTime s = Some t0"
    and "GESTURE_COOLDOWN \<le> t0 - gr_lastGestureTime s"
  shows "\<exists>d. poll_all s mid = Some (replicate (length mid) None, s\<lparr>gr_gestureHoldTime := d\<rparr>)"
  using assms
proof (induction mid arbitrary: s)
  case Nil
  have "s = s\<lparr>gr_gestureHoldTime := gr_gestureHoldTime s\<rparr>" by simp
  then show ?case by (metis poll_all.simps(1) list.size(3) replicate_0)
next
  case (Cons a mid)
  obtain lm h t where a: "a = (lm, h, t)" by (cases a) auto
  from Cons.prems(1) a obtain r where r: "recognize lm h = Some r" "res_gesture r = Some g"
    and t: "t0 \<le> t" "t - t0 < gr_MIN_HOLD_TIME s"
    by auto
  have c: "GESTURE_COOLDOWN \<le> t - gr_lastGestureTime s"
    using Cons.prems(4) t(1) by simp
  let ?s = "s\<lparr>gr_gestureHoldTime := t - t0\<rparr>"
  have step: "detectHeldGesture s lm h t = Some (None, ?s)"
    using poll_hold[OF r Cons.prems(2,3) c t(2)] .
  have "\<exists>d. poll_all ?s mid = Some (replicate (length mid) None, ?s\<lparr>gr_gestureHoldTime := d\<rparr>)"
    using Cons.prems by (intro Cons.IH) auto
  then obtain d where "poll_all ?s mid = Some (replicate (length mid) None, s\<lparr>gr_gestureHoldTime := d\<rparr>)"
    by auto
  with step a show ?case by auto
qed

lemma poll_all_cooldown:
  assumes "\<forall>(lm, h, t) \<in> set post. 21 \<le> length lm \<and> t - gr_lastGestureTime s < GESTURE_COOLDOWN"
  shows "poll_all s post = Some (replicate (length post) None, s)"
  using assms
proof (induction post)
  case Nil
  then show ?case by simp
next
  case (Cons a post)
  obtain lm h t where a: "a = (lm, h, t)" by (cases a) auto
  from Cons.prems a have l: "21 \<le> length lm" and t: "t - gr_lastGestureTime s < GESTURE_COOLDOWN"
    by auto
  from recognize_returns[OF l, of h] obtain r where "recognize lm h = Some r" by blast
  from poll_cooldown[OF this t] have "detectHeldGesture s lm h t = Some (None, s)" .
  moreover have "poll_all s post = Some (replicate (length post) None, s)"
    using Cons.prems by (intro Cons.IH) auto
  ultimately show ?case using a by simp
qed

text \<open>
  Claim C8. A recogniser with a positive minimum hold time, out of its cooldown at time
  \<open>t0\<close> and not already holding the gesture \<open>g\<close>, is polled with hands that are
  all classified as \<open>g\<close>: first at \<open>t0\<close>, then at the times of \<open>mid\<close>, all less
  than the hold time after \<open>t0\<close>, then at \<open>tf\<close>, at least the hold time after
  \<open>t0\<close>. It is then polled with the hands of \<open>post\<close>, any hands of 21 landmarks,
  at times less than the cooldown (500 ms) after \<open>tf\<close>. Every poll returns normally.
  The poll at \<open>tf\<close> returns \<open>g\<close> and every other poll returns null, so the gesture
  fires exactly once; and the final state has the held gesture, its start time and its
  hold time reset, with \<open>lastGestureTime = tf\<close>. The witness holds a gesture from
  1000 to 1300 under the defaults (300 ms, 500 ms) and keeps polling until 1799.
\<close>

theorem held_gesture_fires_once:
  assumes hold_time: "0 < gr_MIN_HOLD_TIME s"
    and no_cooldown: "GESTURE_COOLDOWN \<le> t0 - gr_lastGestureTime s"
    and fresh: "gr_lastGesture s \<noteq> Some g"
    and first: "recognize lm0 h0 = Some r0" "res_gesture r0 = Some g"
    and mid: "\<forall>(lm, h, t) \<in> set mid.
                (\<exists>r. recognize lm h = Some r \<and> res_gesture r = Some g) \<and>
                t0 \<le> t \<and> t - t0 < gr_MIN_HOLD_TIME s"
    and fire: "recognize lmf hf = Some rf" "res_gesture rf = Some g"
              "gr_MIN_HOLD_TIME s \<le> tf - t0"
    and post: "\<forall>(lm, h, t) \<in> set post. 21 \<le> length lm \<and> t - tf < GESTURE_COOLDOWN"
  shows "poll_all s ((lm0, h0, t0) # mid @ [(lmf, hf, tf)] @ post) =
     Some (None # replicate (length mid) None @ [Some g] @ replicate (length post) None,
           s\<lparr>gr_lastGesture := None, gr_gestureStartTime := None,
             gr_gestureHoldTime := 0, gr_lastGestureTime := tf\<rparr>)"
proof -
  let ?s1 = "s\<lparr>gr_lastGesture := Some g, gr_gestureStartTime := Some t0,
               gr_gestureHoldTime := 0\<rparr>"
  let ?s3 = "s\<lparr>gr_lastGesture := None, gr_gestureStartTime := None,
               gr_gestureHoldTime := 0, gr_lastGestureTime := tf\<rparr>"
  have p1: "detectHeldGesture s lm0 h0 t0 = Some (None, ?s1)"
    using poll_first[OF first fresh no_cooldown hold_time] .
  have "\<exists>d. poll_all ?s1 mid = Some (replicate (length mid) None, ?s1\<lparr>gr_gestureHoldTime := d\<rparr>)"
    using mid no_cooldown by (intro poll_all_holding) auto
  then obtain d where p2: "poll_all ?s1 mid =
      Some (replicate (length mid) None, ?s1\<lparr>gr_gestureHoldTime := d\<rparr>)"
    by blast
  let ?s2 = "?s1\<lparr>gr_gestureHoldTime := d\<rparr>"
  have c: "GESTURE_COOLDOWN \<le> tf - gr_lastGestureTime ?s2"
    using no_cooldown fire(3) hold_time by simp
  have "detectHeldGesture ?s2 lmf hf tf =
     Some (Some g, ?s2\<lparr>gr_lastGesture := None, gr_gestureStartTime := None,
                        gr_gestureHoldTime := 0, gr_lastGestureTime := tf\<rparr>)"
    using fire c by (intro poll_fire) auto
  then have p3: "detectHeldGesture ?s2 lmf hf tf = Some (Some g, ?s3)"
    by simp
  have p4: "poll_all ?s3 post = Some (replicate (length post) None, ?s3)"
    using post by (intro poll_all_cooldown) auto
  have p34: "poll_all ?s2 ([(lmf, hf, tf)] @ post) =
      Some ([Some g] @ replicate (length post) None, ?s3)"
    using p3 p4 by simp
  have "poll_all ?s1 (mid @ [(lmf, hf, tf)] @ post) =
      Some (replicate (length mid) None @ [Some g] @ replicate (length post) None, ?s3)"
    unfolding poll_all_append[of ?s1 mid] p2 using p34 by simp
  with p1 show ?thesis by simp
qed

lemma recognize_hand_three:
  "recognize hand_three True =
     Some \<lparr>res_gesture = Some threeFingers, res_confidence = 0.8, res_fingerCount = 3,
           res_fingerStates = \<lparr>fs_thumb = True, fs_index = True, fs_middle = True,
                                fs_ring = False, fs_pinky = False\<rparr>\<rparr>"
  by (simp add: hand_three_def recognize_def countFingers_def at_index_def origin_def Let_def)

lemma hand_three_length: "length hand_three = 21"
  by (simp add: hand_three_def)

theorem held_gesture_fires_once_witness:
  "poll_all new_GestureRecognizer
     [(hand_three, True, 1000), (hand_three, True, 1100), (hand_three, True, 1200),
      (hand_three, True, 1300), (hand_three, True, 1400), (replicate 21 origin, False, 1799)]
   = Some ([None, None, None, Some threeFingers, None, None],
           new_GestureRecognizer\<lparr>gr_lastGestureTime := 1300\<rparr>)"
proof -
  have "poll_all new_GestureRecognizer
     ((hand_three, True, 1000) # [(hand_three, True, 1100), (hand_three, True, 1200)]
        @ [(hand_three, True, 1300)]
        @ [(hand_three, True, 1400), (replicate 21 origin, False, 1799)])
   = Some (None # replicate (length [(hand_three, True, 1100::real), (hand_three, True, 1200)]) None
             @ [Some threeFingers]
             @ replicate (length [(hand_three, True, 1400::real),
                                  (replicate 21 origin, False, 1799)]) None,
           new_GestureRecognizer\<lparr>gr_lastGesture := None, gr_gestureStartTime := None,
             gr_gestureHoldTime := 0, gr_lastGestureTime := 1300\<rparr>)"
    by (rule held_gesture_fires_once [where ?r0.0 = "\<lparr>res_gesture = Some threeFingers, res_confidence = 0.8,
                     res_fingerCount = 3,
                     res_fingerStates = \<lparr>fs_thumb = True, fs_index = True, fs_middle = True,
                                          fs_ring = False, fs_pinky = False\<rparr>\<rparr>"
                 and rf = "\<lparr>res_gesture = Some threeFingers, res_confidence = 0.8,
                     res_fingerCount = 3,
                     res_fingerStates = \<lparr>fs_thumb = True, fs_index = True, fs_middle = True,
                                          fs_ring = False, fs_pinky = False\<rparr>\<rparr>"])
       (simp_all add: recognize_hand_three new_GestureRecognizer_def GESTURE_COOLDOWN_def
          hand_three_length)
  then show ?thesis
    by (simp add: new_GestureRecognizer_def)
qed

end
